theory Spec2Isabelle
  imports Complex_Main "HOL-Library.AList" "HOL-Library.Multiset"
begin

section \<open>The coupon API: data model\<close>

text \<open>
  The development embeds the coupon evaluation of \<^verbatim>\<open>coupons.py\<close>:
  \<^verbatim>\<open>get_applicable_coupons\<close> and \<^verbatim>\<open>apply_coupon\<close>, with the
  three coupon families (cart-wise, product-wise, bxgy) that both functions evaluate inline.

  Conventions of the embedding:
  \<^item> money is Python \<^verbatim>\<open>float\<close> in the source; here it is an exact rational, so the
    formulas are the source's formulas without rounding;
  \<^item> quantities and counters are Python's unbounded \<^verbatim>\<open>int\<close>, here \<open>int\<close>;
    \<^verbatim>\<open>//\<close> is floor division, as \<open>div\<close> on \<open>int\<close> is;
  \<^item> a Python \<^verbatim>\<open>dict\<close> is an association list in insertion order, read with
    \<open>map_of\<close> and written with \<open>AList.update\<close> (which keeps the position of a
    key that is already there, as a dict does);
  \<^item> timestamps are integers;
  \<^item> every \<^verbatim>\<open>raise HTTPException\<close> is a value of \<open>error\<close>, and so are the
    Python exceptions the evaluated expressions can raise on documents of the declared types.
\<close>

datatype error =
    CustomerNotFound        \<comment> \<open>404 \<^verbatim>\<open>Customer not found\<close>\<close>
  | CouponNotFound          \<comment> \<open>404 \<^verbatim>\<open>Coupon not found\<close>\<close>
  | NotActiveOrNotYetValid  \<comment> \<open>400 \<^verbatim>\<open>Coupon is not active or not yet valid\<close>\<close>
  | Expired                 \<comment> \<open>400 \<^verbatim>\<open>Coupon has expired\<close>\<close>
  | TierIneligible          \<comment> \<open>400 \<^verbatim>\<open>This coupon is not valid for ... tier\<close>\<close>
  | EmptyCart               \<comment> \<open>400 \<^verbatim>\<open>Cart is empty\<close>\<close>
  | NotApplicable           \<comment> \<open>400 \<^verbatim>\<open>Coupon is not applicable to your cart\<close>\<close>
  | UsageExhausted          \<comment> \<open>400 \<^verbatim>\<open>You have used all your exclusive coupons of this type\<close>\<close>
  | TypeError               \<comment> \<open>Python: an operation on a stored \<^verbatim>\<open>None\<close>\<close>
  | ZeroDivisionError       \<comment> \<open>Python: \<^verbatim>\<open>//\<close> by zero\<close>
  | KeyError                \<comment> \<open>Python: subscript of a dict with a key it does not hold\<close>

text \<open>
  A field of a stored \<^verbatim>\<open>details\<close> document that the model class declares
  \<^verbatim>\<open>Optional\<close>: the key may be missing from the dict (\<^verbatim>\<open>.get\<close> then gives its
  default), it may be stored as \<^verbatim>\<open>None\<close> (what \<^verbatim>\<open>coupon.dict()\<close> stores for an
  \<^verbatim>\<open>Optional\<close> field left at \<^verbatim>\<open>None\<close>), or it holds a value.
\<close>

datatype 'a field = Missing | Null | Val 'a

record cart_item =
  product_id :: string
  quantity :: int
  price :: rat
  subtotal :: rat

type_synonym cart = "(string \<times> cart_item) list"

record cart_based_coupon =
  threshold :: rat
  cw_discount_percentage :: rat
  max_discount :: "rat field"

record product_based_coupon =
  product_ids :: "string list"
  pw_discount_percentage :: rat
  min_quantity :: "int field"

record bxgy_coupon =
  buy_products :: "string list"
  buy_quantity :: int
  get_products :: "string list"
  get_quantity :: int
  bx_discount_percentage :: rat
  repetition_limit :: "int field"

text \<open>
  The \<^verbatim>\<open>type\<close> string of a coupon together with its \<^verbatim>\<open>details\<close>:
  \<^verbatim>\<open>"cart-wise"\<close>, \<^verbatim>\<open>"product-wise"\<close>, \<^verbatim>\<open>"bxgy"\<close>, or any other string, for
  which no branch of the \<^verbatim>\<open>if/elif\<close> chain runs.
\<close>

datatype coupon_type =
    CartWise cart_based_coupon
  | ProductWise product_based_coupon
  | BxGy bxgy_coupon
  | OtherType

record coupon =
  coupon_id :: string
  ctype :: coupon_type
  is_active :: bool
  valid_from :: int
  valid_until :: "int option"
  user_tiers :: "string list field"

record discount_summary =
  s_coupon_id :: string
  s_coupon_type :: coupon_type
  discount_amount :: rat
  original_total :: rat
  final_total :: rat
  applied_at :: int

record customer =
  tier :: "string option"
  customer_cart :: "cart option"
  exclusive_coupons :: "(string \<times> int) list option"
  coupon_history :: "discount_summary list"

record db =
  customers :: "(string \<times> customer) list"
  coupons :: "coupon list"

section \<open>The three coupon families\<close>

definition cart_total :: "cart \<Rightarrow> rat" where
  "cart_total c = sum_list (map (\<lambda>(pid, item). subtotal item) c)"

subsection \<open>cart-wise\<close>

text \<open>
  \<^verbatim>\<open>min(cart_total * (discount_percentage / 100), details.get("max_discount", float('inf')))\<close>.
  A stored \<^verbatim>\<open>None\<close> is what \<^verbatim>\<open>.get\<close> returns when the key is there, and
  \<^verbatim>\<open>min(x, None)\<close> raises \<^verbatim>\<open>TypeError\<close>.
\<close>

definition cart_wise_min :: "rat \<Rightarrow> cart_based_coupon \<Rightarrow> error + rat" where
  "cart_wise_min ctotal d =
     (case max_discount d of
        Missing \<Rightarrow> Inr (ctotal * (cw_discount_percentage d / 100))
      | Null \<Rightarrow> Inl TypeError
      | Val m \<Rightarrow> Inr (min (ctotal * (cw_discount_percentage d / 100)) m))"

subsection \<open>product-wise\<close>

text \<open>
  The loop over \<^verbatim>\<open>details["product_ids"]\<close>, with the running discount as accumulator.
  \<^verbatim>\<open>details.get("min_quantity", 1)\<close> is evaluated only for a product that is in the
  cart (\<^verbatim>\<open>and\<close> short-circuits); comparing with a stored \<^verbatim>\<open>None\<close> raises.
\<close>

fun product_wise_loop :: "cart \<Rightarrow> product_based_coupon \<Rightarrow> string list \<Rightarrow> rat \<Rightarrow> error + rat" where
  "product_wise_loop c d [] discount = Inr discount"
| "product_wise_loop c d (pid # pids) discount =
     (case map_of c pid of
        None \<Rightarrow> product_wise_loop c d pids discount
      | Some item \<Rightarrow>
          (case min_quantity d of
             Null \<Rightarrow> Inl TypeError
           | Missing \<Rightarrow>
               (if quantity item \<ge> 1
                then product_wise_loop c d pids (discount + subtotal item * (pw_discount_percentage d / 100))
                else product_wise_loop c d pids discount)
           | Val m \<Rightarrow>
               (if quantity item \<ge> m
                then product_wise_loop c d pids (discount + subtotal item * (pw_discount_percentage d / 100))
                else product_wise_loop c d pids discount)))"

definition product_wise_discount :: "cart \<Rightarrow> product_based_coupon \<Rightarrow> error + rat" where
  "product_wise_discount c d = product_wise_loop c d (product_ids d) 0"

subsection \<open>bxgy\<close>

text \<open>The two dicts built from the coupon's lists, in insertion order.\<close>

definition eligible_buy_products :: "cart \<Rightarrow> string list \<Rightarrow> (string \<times> int) list" where
  "eligible_buy_products c pids =
     fold (\<lambda>pid e. case map_of c pid of
                      None \<Rightarrow> e
                    | Some item \<Rightarrow> AList.update pid (quantity item) e) pids []"

definition eligible_get_products :: "cart \<Rightarrow> string list \<Rightarrow> (string \<times> (int \<times> rat)) list" where
  "eligible_get_products c pids =
     fold (\<lambda>pid e. case map_of c pid of
                      None \<Rightarrow> e
                    | Some item \<Rightarrow> AList.update pid (quantity item, price item) e) pids []"

text \<open>
  \<^verbatim>\<open>sorted([(pid, data["price"]) for pid, data in eligible_get_products.items()], key=lambda x: x[1])\<close>:
  Python's \<^verbatim>\<open>sorted\<close> is stable, and so is \<open>sort_key\<close>.
\<close>

definition sorted_get_products :: "(string \<times> (int \<times> rat)) list \<Rightarrow> (string \<times> rat) list" where
  "sorted_get_products e = sort_key snd (map (\<lambda>(pid, data). (pid, snd data)) e)"

text \<open>
  One iteration of the allocation loop on the state \<open>(discount, units_discounted)\<close>, given
  the candidate's \<^verbatim>\<open>available_units\<close>.
\<close>

definition units_to_discount :: "int \<Rightarrow> int \<Rightarrow> int \<Rightarrow> int" where
  "units_to_discount available_units total_get_units units_discounted =
     min available_units (total_get_units - units_discounted)"

definition allocate_step :: "int \<Rightarrow> rat \<Rightarrow> int \<Rightarrow> rat \<Rightarrow> rat \<times> int \<Rightarrow> rat \<times> int" where
  "allocate_step total_get_units pct available_units pr st =
     (let u = units_to_discount available_units total_get_units (snd st)
      in if u > 0 then (fst st + of_int u * pr * (pct / 100), snd st + u) else st)"

text \<open>
  The loop over the sorted candidates; it leaves (\<^verbatim>\<open>break\<close>) after a step that
  discounted units and reached \<^verbatim>\<open>total_get_units\<close>.
\<close>

fun allocate :: "(string \<times> (int \<times> rat)) list \<Rightarrow> int \<Rightarrow> rat \<Rightarrow> (string \<times> rat) list
    \<Rightarrow> rat \<times> int \<Rightarrow> error + rat \<times> int" where
  "allocate e total_get_units pct [] st = Inr st"
| "allocate e total_get_units pct ((pid, pr) # rest) st =
     (case map_of e pid of
        None \<Rightarrow> Inl KeyError
      | Some data \<Rightarrow>
          (let st' = allocate_step total_get_units pct (fst data) pr st
           in if units_to_discount (fst data) total_get_units (snd st) > 0
                 \<and> snd st' \<ge> total_get_units
              then Inr st'
              else allocate e total_get_units pct rest st'))"

text \<open>
  \<^verbatim>\<open>if details.get("repetition_limit"): buy_units = min(buy_units, details["repetition_limit"])\<close>:
  a missing key, a stored \<^verbatim>\<open>None\<close> and a stored \<^verbatim>\<open>0\<close> are all falsy.
\<close>

definition apply_repetition_limit :: "int field \<Rightarrow> int \<Rightarrow> int" where
  "apply_repetition_limit rl buy_units =
     (case rl of
        Val n \<Rightarrow> (if n \<noteq> 0 then min buy_units n else buy_units)
      | _ \<Rightarrow> buy_units)"

definition buy_units_of :: "cart \<Rightarrow> bxgy_coupon \<Rightarrow> int" where
  "buy_units_of c d =
     apply_repetition_limit (repetition_limit d)
       (sum_list (map snd (eligible_buy_products c (buy_products d))) div buy_quantity d)"

text \<open>The whole bxgy block: the value of \<^verbatim>\<open>discount\<close> after it (0 when no branch assigns).\<close>

definition bxgy_discount :: "cart \<Rightarrow> bxgy_coupon \<Rightarrow> error + rat" where
  "bxgy_discount c d =
     (let eb = eligible_buy_products c (buy_products d);
          eg = eligible_get_products c (get_products d)
      in if eb \<noteq> [] \<and> eg \<noteq> [] then
           (if buy_quantity d = 0 then Inl ZeroDivisionError
            else
              (let buy_units = buy_units_of c d
               in if buy_units > 0 then
                    (case allocate eg (buy_units * get_quantity d) (bx_discount_percentage d)
                            (sorted_get_products eg) (0, 0) of
                       Inl err \<Rightarrow> Inl err
                     | Inr st \<Rightarrow> Inr (fst st))
                  else Inr 0))
         else Inr 0)"

section \<open>Listing and applying\<close>

subsection \<open>\<^verbatim>\<open>get_applicable_coupons\<close>\<close>

text \<open>
  The body of the loop over \<^verbatim>\<open>all_coupons\<close>: \<open>Some discount\<close> when the coupon is
  appended to \<^verbatim>\<open>applicable_coupons\<close> with that \<^verbatim>\<open>calculated_discount\<close>. The
  cart-wise branch appends whenever the threshold is met; the other two append when their
  discount is positive.
\<close>

definition list_entry :: "cart \<Rightarrow> coupon \<Rightarrow> error + rat option" where
  "list_entry c cp =
     (case ctype cp of
        CartWise d \<Rightarrow>
          (if cart_total c \<ge> threshold d
           then (case cart_wise_min (cart_total c) d of
                   Inl err \<Rightarrow> Inl err
                 | Inr discount \<Rightarrow> Inr (Some discount))
           else Inr None)
      | ProductWise d \<Rightarrow>
          (case product_wise_discount c d of
             Inl err \<Rightarrow> Inl err
           | Inr product_discount \<Rightarrow>
               Inr (if product_discount > 0 then Some product_discount else None))
      | BxGy d \<Rightarrow>
          (case bxgy_discount c d of
             Inl err \<Rightarrow> Inl err
           | Inr discount \<Rightarrow> Inr (if discount > 0 then Some discount else None))
      | OtherType \<Rightarrow> Inr None)"

fun collect_applicable :: "cart \<Rightarrow> coupon list \<Rightarrow> (coupon \<times> rat) list
    \<Rightarrow> error + (coupon \<times> rat) list" where
  "collect_applicable c [] applicable_coupons = Inr applicable_coupons"
| "collect_applicable c (cp # cps) applicable_coupons =
     (case list_entry c cp of
        Inl err \<Rightarrow> Inl err
      | Inr None \<Rightarrow> collect_applicable c cps applicable_coupons
      | Inr (Some discount) \<Rightarrow> collect_applicable c cps (applicable_coupons @ [(cp, discount)]))"

text \<open>
  The query on the coupon collection: active, started, not ended (or with no end), and
  \<^verbatim>\<open>user_tiers\<close> an array that holds the customer's tier.
\<close>

definition find_valid_coupons :: "coupon list \<Rightarrow> int \<Rightarrow> string \<Rightarrow> coupon list" where
  "find_valid_coupons cps now customer_tier =
     filter (\<lambda>cp. is_active cp \<and> valid_from cp \<le> now
                 \<and> (case valid_until cp of None \<Rightarrow> True | Some u \<Rightarrow> u \<ge> now)
                 \<and> (case user_tiers cp of Val ts \<Rightarrow> customer_tier \<in> set ts | _ \<Rightarrow> False)) cps"

definition customer_tier_of :: "customer \<Rightarrow> string" where
  "customer_tier_of cu = (case tier cu of None \<Rightarrow> ''Basic'' | Some t \<Rightarrow> t)"

text \<open>
  \<^verbatim>\<open>applicable_coupons.sort(key=lambda x: x["calculated_discount"], reverse=True)\<close>:
  Python's sort is stable also with \<^verbatim>\<open>reverse=True\<close> (elements with equal keys keep
  their order), which is the stable ascending sort on the negated key.
\<close>

definition sort_by_discount :: "(coupon \<times> rat) list \<Rightarrow> (coupon \<times> rat) list" where
  "sort_by_discount xs = sort_key (\<lambda>x. - snd x) xs"

definition get_applicable_coupons :: "db \<Rightarrow> int \<Rightarrow> string \<Rightarrow> error + (coupon \<times> rat) list" where
  "get_applicable_coupons st now customer_id =
     (case map_of (customers st) customer_id of
        None \<Rightarrow> Inl CustomerNotFound
      | Some cu \<Rightarrow>
          (case customer_cart cu of
             None \<Rightarrow> Inr []
           | Some c \<Rightarrow>
               (if c = [] then Inr []
                else (case collect_applicable c
                             (find_valid_coupons (coupons st) now (customer_tier_of cu)) [] of
                        Inl err \<Rightarrow> Inl err
                      | Inr applicable_coupons \<Rightarrow> Inr (sort_by_discount applicable_coupons)))))"

subsection \<open>\<^verbatim>\<open>apply_coupon\<close>\<close>

text \<open>The value of \<^verbatim>\<open>discount\<close> after the \<^verbatim>\<open>if/elif\<close> chain on the coupon type.\<close>

definition recalculate_discount :: "cart \<Rightarrow> coupon \<Rightarrow> error + rat" where
  "recalculate_discount c cp =
     (case ctype cp of
        CartWise d \<Rightarrow>
          (if cart_total c \<ge> threshold d then cart_wise_min (cart_total c) d else Inr 0)
      | ProductWise d \<Rightarrow> product_wise_discount c d
      | BxGy d \<Rightarrow> bxgy_discount c d
      | OtherType \<Rightarrow> Inr 0)"

text \<open>
  \<^verbatim>\<open>coupon.get("user_tiers", ["Basic"])\<close> as the right operand of \<^verbatim>\<open>not in\<close>:
  the default when the key is missing, and \<^verbatim>\<open>TypeError\<close> for a stored
  \<^verbatim>\<open>None\<close>, which is not iterable.
\<close>

definition user_tiers_or_default :: "coupon \<Rightarrow> error + string list" where
  "user_tiers_or_default cp =
     (case user_tiers cp of
        Missing \<Rightarrow> Inr [''Basic'']
      | Null \<Rightarrow> Inl TypeError
      | Val ts \<Rightarrow> Inr ts)"

text \<open>
  The checks that come before the discount is recalculated, in the order of the source.
\<close>

definition validate_coupon :: "int \<Rightarrow> customer \<Rightarrow> coupon \<Rightarrow> error option" where
  "validate_coupon now cu cp =
     (if \<not> is_active cp \<or> valid_from cp > now then Some NotActiveOrNotYetValid
      else if (case valid_until cp of None \<Rightarrow> False | Some u \<Rightarrow> u < now) then Some Expired
      else (case user_tiers_or_default cp of
              Inl err \<Rightarrow> Some err
            | Inr ts \<Rightarrow>
                (if customer_tier_of cu \<notin> set ts then Some TierIneligible
                 else if (case customer_cart cu of None \<Rightarrow> True | Some c \<Rightarrow> c = [])
                      then Some EmptyCart
                 else None)))"

text \<open>
  The exclusive-coupon step: \<open>Inl UsageExhausted\<close>, or the customer document after the
  \<^verbatim>\<open>$set\<close> of the decremented counter (unchanged when the coupon is not registered).
\<close>

definition use_exclusive :: "string \<Rightarrow> customer \<Rightarrow> error + customer" where
  "use_exclusive cid cu =
     (let ex = (case exclusive_coupons cu of None \<Rightarrow> [] | Some e \<Rightarrow> e)
      in case map_of ex cid of
           None \<Rightarrow> Inr cu
         | Some usage_limit \<Rightarrow>
             (if usage_limit \<le> 0 then Inl UsageExhausted
              else Inr (cu\<lparr>exclusive_coupons := Some (AList.update cid (usage_limit - 1) ex)\<rparr>)))"

text \<open>The \<^verbatim>\<open>discount_summary\<close> dict, with \<^verbatim>\<open>final_price = cart_total - discount\<close>.\<close>

definition make_summary :: "string \<Rightarrow> coupon \<Rightarrow> rat \<Rightarrow> rat \<Rightarrow> int \<Rightarrow> discount_summary" where
  "make_summary cid cp ctotal discount applied =
     \<lparr>s_coupon_id = cid, s_coupon_type = ctype cp, discount_amount = discount,
      original_total = ctotal, final_total = ctotal - discount, applied_at = applied\<rparr>"

text \<open>
  The two \<^verbatim>\<open>update_one\<close> calls on the customer document: the counter written by
  the exclusive step (already in \<open>cu'\<close>) and the \<^verbatim>\<open>$push\<close> to
  \<^verbatim>\<open>coupon_history\<close>.
\<close>

definition commit :: "db \<Rightarrow> string \<Rightarrow> customer \<Rightarrow> discount_summary \<Rightarrow> db" where
  "commit st customer_id cu' summary =
     st\<lparr>customers :=
          AList.update customer_id (cu'\<lparr>coupon_history := coupon_history cu' @ [summary]\<rparr>)
            (customers st)\<rparr>"

definition apply_coupon :: "db \<Rightarrow> int \<Rightarrow> int \<Rightarrow> string \<Rightarrow> string
    \<Rightarrow> error + discount_summary \<times> db" where
  "apply_coupon st now applied customer_id cid =
     (case map_of (customers st) customer_id of
        None \<Rightarrow> Inl CustomerNotFound
      | Some cu \<Rightarrow>
          (case find (\<lambda>cp. coupon_id cp = cid) (coupons st) of
             None \<Rightarrow> Inl CouponNotFound
           | Some cp \<Rightarrow>
               (case validate_coupon now cu cp of
                  Some err \<Rightarrow> Inl err
                | None \<Rightarrow>
                    (let c = (case customer_cart cu of None \<Rightarrow> [] | Some c \<Rightarrow> c)
                     in case recalculate_discount c cp of
                          Inl err \<Rightarrow> Inl err
                        | Inr discount \<Rightarrow>
                            (if discount \<le> 0 then Inl NotApplicable
                             else
                               (case use_exclusive cid cu of
                                  Inl err \<Rightarrow> Inl err
                                | Inr cu' \<Rightarrow>
                                    (let summary = make_summary cid cp (cart_total c) discount applied
                                     in Inr (summary, commit st customer_id cu' summary))))))))"

section \<open>The same evaluation in floating point\<close>

text \<open>
  The source computes money with Python floats (binary64). The definitions above idealise
  every operation to exact arithmetic. Here are the same computations with a rounding
  function \<open>rnd\<close> applied to the result of each arithmetic operation on floats, in the
  order in which the source evaluates them; comparisons, \<^verbatim>\<open>min\<close> and the integer
  arithmetic on quantities and units are exact in the source too. An \<^verbatim>\<open>int\<close> operand
  of a float operation is first converted to a float, which rounds it.
\<close>

subsection \<open>Rounding to a binary64 float\<close>

text \<open>
  Round to nearest, ties to even, with 53 bits of significand: the result of an arithmetic
  operation on floats that neither overflows nor falls in the subnormal range.
\<close>

function floor_log2_int :: "int \<Rightarrow> nat" where
  "floor_log2_int n = (if n < 2 then 0 else Suc (floor_log2_int (n div 2)))"
  by pat_completeness auto
termination
  by (relation "measure nat") auto

declare floor_log2_int.simps [simp del]

text \<open>The exponent \<open>e\<close> with \<open>2 ^ e \<le> a < 2 ^ (e + 1)\<close>, for a positive \<open>a\<close>.\<close>

definition floor_log2 :: "rat \<Rightarrow> int" where
  "floor_log2 a =
     (if 1 \<le> a then int (floor_log2_int \<lfloor>a\<rfloor>)
      else - int (Suc (floor_log2_int (\<lceil>1 / a\<rceil> - 1))))"

definition round_half_even :: "rat \<Rightarrow> int" where
  "round_half_even m =
     (let f = \<lfloor>m\<rfloor>; r = m - of_int f
      in if r < 1 / 2 then f
         else if 1 / 2 < r then f + 1
         else if even f then f else f + 1)"

definition round_to_double :: "rat \<Rightarrow> rat" where
  "round_to_double x =
     (if x = 0 then 0
      else let e = floor_log2 \<bar>x\<bar>;
               n = round_half_even (\<bar>x\<bar> * power_int 2 (52 - e))
           in sgn x * of_int n * power_int 2 (e - 52))"

subsection \<open>The coupon families\<close>

text \<open>
  \<^verbatim>\<open>sum(item["subtotal"] for item in cart_items)\<close>: the additions from left to right,
  starting from 0.
\<close>

definition fl_cart_total :: "(rat \<Rightarrow> rat) \<Rightarrow> cart \<Rightarrow> rat" where
  "fl_cart_total rnd c = foldl (\<lambda>s x. rnd (s + x)) 0 (map (\<lambda>(pid, item). subtotal item) c)"

definition fl_cart_wise_min :: "(rat \<Rightarrow> rat) \<Rightarrow> rat \<Rightarrow> cart_based_coupon \<Rightarrow> error + rat" where
  "fl_cart_wise_min rnd ctotal d =
     (case max_discount d of
        Missing \<Rightarrow> Inr (rnd (ctotal * rnd (cw_discount_percentage d / 100)))
      | Null \<Rightarrow> Inl TypeError
      | Val m \<Rightarrow> Inr (min (rnd (ctotal * rnd (cw_discount_percentage d / 100))) m))"

fun fl_product_wise_loop :: "(rat \<Rightarrow> rat) \<Rightarrow> cart \<Rightarrow> product_based_coupon \<Rightarrow> string list
    \<Rightarrow> rat \<Rightarrow> error + rat" where
  "fl_product_wise_loop rnd c d [] discount = Inr discount"
| "fl_product_wise_loop rnd c d (pid # pids) discount =
     (case map_of c pid of
        None \<Rightarrow> fl_product_wise_loop rnd c d pids discount
      | Some item \<Rightarrow>
          (case min_quantity d of
             Null \<Rightarrow> Inl TypeError
           | Missing \<Rightarrow>
               (if quantity item \<ge> 1
                then fl_product_wise_loop rnd c d pids
                       (rnd (discount + rnd (subtotal item * rnd (pw_discount_percentage d / 100))))
                else fl_product_wise_loop rnd c d pids discount)
           | Val m \<Rightarrow>
               (if quantity item \<ge> m
                then fl_product_wise_loop rnd c d pids
                       (rnd (discount + rnd (subtotal item * rnd (pw_discount_percentage d / 100))))
                else fl_product_wise_loop rnd c d pids discount)))"

definition fl_product_wise_discount :: "(rat \<Rightarrow> rat) \<Rightarrow> cart \<Rightarrow> product_based_coupon \<Rightarrow> error + rat" where
  "fl_product_wise_discount rnd c d = fl_product_wise_loop rnd c d (product_ids d) 0"

text \<open>
  \<^verbatim>\<open>discount += units_to_discount * price * (discount_percentage / 100)\<close>: the product
  is taken from left to right.
\<close>

definition fl_allocate_step :: "(rat \<Rightarrow> rat) \<Rightarrow> int \<Rightarrow> rat \<Rightarrow> int \<Rightarrow> rat \<Rightarrow> rat \<times> int \<Rightarrow> rat \<times> int" where
  "fl_allocate_step rnd total_get_units pct available_units pr st =
     (let u = units_to_discount available_units total_get_units (snd st)
      in if u > 0
         then (rnd (fst st + rnd (rnd (rnd (of_int u) * pr) * rnd (pct / 100))), snd st + u)
         else st)"

fun fl_allocate :: "(rat \<Rightarrow> rat) \<Rightarrow> (string \<times> (int \<times> rat)) list \<Rightarrow> int \<Rightarrow> rat
    \<Rightarrow> (string \<times> rat) list \<Rightarrow> rat \<times> int \<Rightarrow> error + rat \<times> int" where
  "fl_allocate rnd e total_get_units pct [] st = Inr st"
| "fl_allocate rnd e total_get_units pct ((pid, pr) # rest) st =
     (case map_of e pid of
        None \<Rightarrow> Inl KeyError
      | Some data \<Rightarrow>
          (let st' = fl_allocate_step rnd total_get_units pct (fst data) pr st
           in if units_to_discount (fst data) total_get_units (snd st) > 0
                 \<and> snd st' \<ge> total_get_units
              then Inr st'
              else fl_allocate rnd e total_get_units pct rest st'))"

definition fl_bxgy_discount :: "(rat \<Rightarrow> rat) \<Rightarrow> cart \<Rightarrow> bxgy_coupon \<Rightarrow> error + rat" where
  "fl_bxgy_discount rnd c d =
     (let eb = eligible_buy_products c (buy_products d);
          eg = eligible_get_products c (get_products d)
      in if eb \<noteq> [] \<and> eg \<noteq> [] then
           (if buy_quantity d = 0 then Inl ZeroDivisionError
            else
              (let buy_units = buy_units_of c d
               in if buy_units > 0 then
                    (case fl_allocate rnd eg (buy_units * get_quantity d) (bx_discount_percentage d)
                            (sorted_get_products eg) (0, 0) of
                       Inl err \<Rightarrow> Inl err
                     | Inr st \<Rightarrow> Inr (fst st))
                  else Inr 0))
         else Inr 0)"

subsection \<open>\<^verbatim>\<open>apply_coupon\<close>\<close>

definition fl_recalculate_discount :: "(rat \<Rightarrow> rat) \<Rightarrow> cart \<Rightarrow> coupon \<Rightarrow> error + rat" where
  "fl_recalculate_discount rnd c cp =
     (case ctype cp of
        CartWise d \<Rightarrow>
          (if fl_cart_total rnd c \<ge> threshold d then fl_cart_wise_min rnd (fl_cart_total rnd c) d
           else Inr 0)
      | ProductWise d \<Rightarrow> fl_product_wise_discount rnd c d
      | BxGy d \<Rightarrow> fl_bxgy_discount rnd c d
      | OtherType \<Rightarrow> Inr 0)"

definition fl_make_summary :: "(rat \<Rightarrow> rat) \<Rightarrow> string \<Rightarrow> coupon \<Rightarrow> rat \<Rightarrow> rat \<Rightarrow> int
    \<Rightarrow> discount_summary" where
  "fl_make_summary rnd cid cp ctotal discount applied =
     \<lparr>s_coupon_id = cid, s_coupon_type = ctype cp, discount_amount = discount,
      original_total = ctotal, final_total = rnd (ctotal - discount), applied_at = applied\<rparr>"

definition fl_apply_coupon :: "(rat \<Rightarrow> rat) \<Rightarrow> db \<Rightarrow> int \<Rightarrow> int \<Rightarrow> string \<Rightarrow> string
    \<Rightarrow> error + discount_summary \<times> db" where
  "fl_apply_coupon rnd st now applied customer_id cid =
     (case map_of (customers st) customer_id of
        None \<Rightarrow> Inl CustomerNotFound
      | Some cu \<Rightarrow>
          (case find (\<lambda>cp. coupon_id cp = cid) (coupons st) of
             None \<Rightarrow> Inl CouponNotFound
           | Some cp \<Rightarrow>
               (case validate_coupon now cu cp of
                  Some err \<Rightarrow> Inl err
                | None \<Rightarrow>
                    (let c = (case customer_cart cu of None \<Rightarrow> [] | Some c \<Rightarrow> c)
                     in case fl_recalculate_discount rnd c cp of
                          Inl err \<Rightarrow> Inl err
                        | Inr discount \<Rightarrow>
                            (if discount \<le> 0 then Inl NotApplicable
                             else
                               (case use_exclusive cid cu of
                                  Inl err \<Rightarrow> Inl err
                                | Inr cu' \<Rightarrow>
                                    (let summary = fl_make_summary rnd cid cp
                                                     (fl_cart_total rnd c) discount applied
                                     in Inr (summary, commit st customer_id cu' summary))))))))"

section \<open>Notions used to state the properties\<close>

subsection \<open>Per-product contributions\<close>

text \<open>
  \<open>subtotal(product_id)\<close> of the cart, the \<^verbatim>\<open>min_quantity\<close> in force (1 when the
  key is missing) and the products that qualify: present in the cart with a quantity of at
  least \<^verbatim>\<open>min_quantity\<close>.
\<close>

definition product_subtotal :: "cart \<Rightarrow> string \<Rightarrow> rat" where
  "product_subtotal c pid = (case map_of c pid of None \<Rightarrow> 0 | Some item \<Rightarrow> subtotal item)"

definition min_quantity_or_default :: "product_based_coupon \<Rightarrow> int" where
  "min_quantity_or_default d = (case min_quantity d of Val m \<Rightarrow> m | _ \<Rightarrow> 1)"

definition qualifies :: "cart \<Rightarrow> product_based_coupon \<Rightarrow> string \<Rightarrow> bool" where
  "qualifies c d pid =
     (case map_of c pid of
        None \<Rightarrow> False
      | Some item \<Rightarrow> min_quantity_or_default d \<le> quantity item)"

subsection \<open>The unit prices of the get-candidates\<close>

text \<open>
  The units on offer, candidate by candidate: each candidate contributes as many copies of
  its unit price as it has available units. On the sorted candidates this is the list of
  all unit prices, cheapest first.
\<close>

definition available_units :: "(string \<times> (int \<times> rat)) list \<Rightarrow> string \<Rightarrow> int" where
  "available_units e pid = (case map_of e pid of None \<Rightarrow> 0 | Some data \<Rightarrow> fst data)"

definition unit_prices :: "(string \<times> (int \<times> rat)) list \<Rightarrow> (string \<times> rat) list \<Rightarrow> rat list" where
  "unit_prices e cs = concat (map (\<lambda>(pid, pr). replicate (nat (available_units e pid)) pr) cs)"


subsection \<open>Calls of \<^verbatim>\<open>apply_coupon\<close>\<close>

text \<open>
  The call finds the customer \<open>cu\<close> and the coupon \<open>cp\<close>, passes the checks on the
  coupon, the tier and the cart, and goes on to recalculate the discount on the cart \<open>c\<close>.
\<close>

definition apply_context :: "db \<Rightarrow> int \<Rightarrow> string \<Rightarrow> string \<Rightarrow> customer \<Rightarrow> coupon \<Rightarrow> cart \<Rightarrow> bool" where
  "apply_context st now customer_id cid cu cp c =
     (map_of (customers st) customer_id = Some cu
      \<and> find (\<lambda>cp. coupon_id cp = cid) (coupons st) = Some cp
      \<and> validate_coupon now cu cp = None
      \<and> customer_cart cu = Some c)"

text \<open>
  The remaining-use counter of a coupon registered as exclusive for the customer
  (\<open>None\<close> when it is not registered).
\<close>

definition usage_remaining :: "db \<Rightarrow> string \<Rightarrow> string \<Rightarrow> int option" where
  "usage_remaining st customer_id cid =
     (case map_of (customers st) customer_id of
        None \<Rightarrow> None
      | Some cu \<Rightarrow>
          (case exclusive_coupons cu of None \<Rightarrow> None | Some ex \<Rightarrow> map_of ex cid))"

subsection \<open>Well-formed carts and coupons\<close>




subsection \<open>Rounding functions\<close>

text \<open>
  What is used of a rounding function: it is monotone, it leaves a float (a value that it
  returns) unchanged, and 0 and 1 are floats. Rounding to nearest has these properties as
  long as no operation overflows.
\<close>

definition rounding :: "(rat \<Rightarrow> rat) \<Rightarrow> bool" where
  "rounding rnd =
     ((\<forall>x y. x \<le> y \<longrightarrow> rnd x \<le> rnd y) \<and> (\<forall>x. rnd (rnd x) = rnd x) \<and> rnd 0 = 0 \<and> rnd 1 = 1)"

text \<open>
  The lines of a cart as \<^verbatim>\<open>add_to_cart\<close> stores them in floating point:
  \<^verbatim>\<open>subtotal = quantity * price\<close>, with a quantity and a price that are not negative.
\<close>

definition fl_cart_lines_ok :: "(rat \<Rightarrow> rat) \<Rightarrow> cart \<Rightarrow> bool" where
  "fl_cart_lines_ok rnd c =
     (distinct (map fst c)
      \<and> list_all (\<lambda>(pid, item). 0 \<le> quantity item \<and> 0 \<le> price item
                      \<and> subtotal item = rnd (rnd (of_int (quantity item)) * price item)) c)"

section \<open>The fixtures of the test suite\<close>

text \<open>
  The customer, the cart and the three coupons of \<^verbatim>\<open>unit_test.py\<close>. Times are in days,
  with the tests' \<^verbatim>\<open>datetime.now()\<close> at day 100.
\<close>

definition mock_cart :: cart where
  "mock_cart =
     [(''p123'', \<lparr>product_id = ''p123'', quantity = 2, price = 50, subtotal = 100\<rparr>),
      (''p456'', \<lparr>product_id = ''p456'', quantity = 1, price = 30, subtotal = 30\<rparr>),
      (''p789'', \<lparr>product_id = ''p789'', quantity = 1, price = 20, subtotal = 20\<rparr>)]"

definition mock_customer :: customer where
  "mock_customer =
     \<lparr>tier = Some ''Silver'', customer_cart = Some mock_cart,
      exclusive_coupons = Some [(''EXCLUSIVE10'', 2)], coupon_history = []\<rparr>"

definition all_tiers :: "string list" where
  "all_tiers = [''Basic'', ''Silver'', ''Gold'', ''Platinum'']"

definition mock_cart_details :: cart_based_coupon where
  "mock_cart_details = \<lparr>threshold = 100, cw_discount_percentage = 20, max_discount = Val 50\<rparr>"

definition mock_cart_coupon :: coupon where
  "mock_cart_coupon =
     \<lparr>coupon_id = ''CART20'', ctype = CartWise mock_cart_details,
      is_active = True, valid_from = 90, valid_until = Some 120, user_tiers = Val all_tiers\<rparr>"

definition mock_product_details :: product_based_coupon where
  "mock_product_details =
     \<lparr>product_ids = [''p123'', ''p456''], pw_discount_percentage = 15, min_quantity = Val 2\<rparr>"

definition mock_product_coupon :: coupon where
  "mock_product_coupon =
     \<lparr>coupon_id = ''PROD15'', ctype = ProductWise mock_product_details,
      is_active = True, valid_from = 95, valid_until = None, user_tiers = Val all_tiers\<rparr>"

definition mock_bxgy_details :: bxgy_coupon where
  "mock_bxgy_details =
     \<lparr>buy_products = [''p123'', ''p456''], buy_quantity = 2, get_products = [''p789''],
      get_quantity = 1, bx_discount_percentage = 100, repetition_limit = Val 1\<rparr>"

definition mock_bxgy_coupon :: coupon where
  "mock_bxgy_coupon =
     \<lparr>coupon_id = ''BUY2GET1'', ctype = BxGy mock_bxgy_details,
      is_active = True, valid_from = 98, valid_until = Some 130,
      user_tiers = Val [''Silver'', ''Gold'', ''Platinum'']\<rparr>"

definition mock_customer_id :: string where
  "mock_customer_id = ''60d21b4667d0d8992e610c85''"

definition mock_db :: "customer \<Rightarrow> coupon list \<Rightarrow> db" where
  "mock_db cu cps = \<lparr>customers = [(mock_customer_id, cu)], coupons = cps\<rparr>"

text \<open>
  Further inputs: a cart that holds one free sample, and a cart-wise coupon of 10 percent with
  no threshold to reach and no cap; a cart with two equally priced products.
\<close>

definition free_cart :: cart where
  "free_cart = [(''s100'', \<lparr>product_id = ''s100'', quantity = 1, price = 0, subtotal = 0\<rparr>)]"

definition any10_details :: cart_based_coupon where
  "any10_details = \<lparr>threshold = 0, cw_discount_percentage = 10, max_discount = Missing\<rparr>"

definition any10_coupon :: coupon where
  "any10_coupon =
     \<lparr>coupon_id = ''ANY10'', ctype = CartWise any10_details,
      is_active = True, valid_from = 90, valid_until = None, user_tiers = Val all_tiers\<rparr>"

definition tie_cart :: cart where
  "tie_cart =
     [(''a1'', \<lparr>product_id = ''a1'', quantity = 1, price = 10, subtotal = 10\<rparr>),
      (''b2'', \<lparr>product_id = ''b2'', quantity = 1, price = 10, subtotal = 10\<rparr>),
      (''x9'', \<lparr>product_id = ''x9'', quantity = 2, price = 5, subtotal = 10\<rparr>)]"

text \<open>
  Carts whose prices are the floats written \<^verbatim>\<open>0.1\<close>, \<^verbatim>\<open>0.2\<close> and
  \<^verbatim>\<open>0.3\<close>, with a product-wise and a bxgy coupon of 100 percent on all their
  products, and a cart with two products at \<^verbatim>\<open>0.1\<close>.
\<close>

definition float_line :: "string \<Rightarrow> int \<Rightarrow> rat \<Rightarrow> string \<times> cart_item" where
  "float_line pid q pr =
     (pid, \<lparr>product_id = pid, quantity = q, price = round_to_double pr,
            subtotal = round_to_double (round_to_double (of_int q) * round_to_double pr)\<rparr>)"

definition cents_cart :: cart where
  "cents_cart = [float_line ''c3'' 1 (3 / 10), float_line ''b2'' 1 (2 / 10), float_line ''a1'' 1 (1 / 10)]"

definition all100_details :: product_based_coupon where
  "all100_details =
     \<lparr>product_ids = [''a1'', ''b2'', ''c3''], pw_discount_percentage = 100, min_quantity = Val 1\<rparr>"

definition all100_coupon :: coupon where
  "all100_coupon =
     \<lparr>coupon_id = ''ALL100'', ctype = ProductWise all100_details,
      is_active = True, valid_from = 90, valid_until = None, user_tiers = Val all_tiers\<rparr>"

definition free3_details :: bxgy_coupon where
  "free3_details =
     \<lparr>buy_products = [''a1'', ''b2'', ''c3''], buy_quantity = 1,
      get_products = [''a1'', ''b2'', ''c3''], get_quantity = 1,
      bx_discount_percentage = 100, repetition_limit = Missing\<rparr>"

definition free3_coupon :: coupon where
  "free3_coupon =
     \<lparr>coupon_id = ''FREE3'', ctype = BxGy free3_details,
      is_active = True, valid_from = 90, valid_until = None, user_tiers = Val all_tiers\<rparr>"

definition dime_cart :: cart where
  "dime_cart = [float_line ''x9'' 7 5, float_line ''a1'' 3 (1 / 10), float_line ''b2'' 5 (1 / 10)]"

definition dime_details :: "string list \<Rightarrow> bxgy_coupon" where
  "dime_details gp =
     \<lparr>buy_products = [''x9''], buy_quantity = 1, get_products = gp, get_quantity = 1,
      bx_discount_percentage = 100, repetition_limit = Missing\<rparr>"

lemmas mock_defs = mock_cart_def mock_customer_def all_tiers_def mock_cart_details_def
  mock_cart_coupon_def mock_product_details_def mock_product_coupon_def mock_bxgy_details_def
  mock_bxgy_coupon_def mock_customer_id_def mock_db_def free_cart_def any10_details_def
  any10_coupon_def tie_cart_def

lemmas eval_defs = cart_total_def cart_wise_min_def product_wise_discount_def
  eligible_buy_products_def eligible_get_products_def sorted_get_products_def
  units_to_discount_def allocate_step_def apply_repetition_limit_def buy_units_of_def
  bxgy_discount_def list_entry_def find_valid_coupons_def customer_tier_of_def
  sort_by_discount_def get_applicable_coupons_def recalculate_discount_def
  user_tiers_or_default_def validate_coupon_def use_exclusive_def make_summary_def commit_def apply_coupon_def Let_def

text \<open>The three \<^verbatim>\<open>test_apply_*_coupon\<close> tests: discounts 30, 15 and 20 on a total of 150.\<close>

lemma test_apply_cart_coupon:
  "map_sum id (\<lambda>r. (discount_amount (fst r), original_total (fst r), final_total (fst r)))
     (apply_coupon (mock_db mock_customer [mock_cart_coupon]) 100 100 mock_customer_id ''CART20'')
   = Inr (30, 150, 120)"
  by (simp add: eval_defs mock_defs)

lemma test_apply_product_coupon:
  "map_sum id (\<lambda>r. (discount_amount (fst r), original_total (fst r), final_total (fst r)))
     (apply_coupon (mock_db mock_customer [mock_product_coupon]) 100 100 mock_customer_id ''PROD15'')
   = Inr (15, 150, 135)"
  by (simp add: eval_defs mock_defs)

lemma test_apply_bxgy_coupon:
  "map_sum id (\<lambda>r. (discount_amount (fst r), original_total (fst r), final_total (fst r)))
     (apply_coupon (mock_db mock_customer [mock_bxgy_coupon]) 100 100 mock_customer_id ''BUY2GET1'')
   = Inr (20, 150, 130)"
  by (simp add: eval_defs mock_defs)

section \<open>The bxgy allocation\<close>

lemma allocate_step_units:
  "allocate_step T pct a pr st =
     (fst st + (pct / 100) * sum_list (take (nat (T - snd st)) (replicate (nat a) pr)),
      snd st + int (length (take (nat (T - snd st)) (replicate (nat a) pr))))"
  by (cases st) (auto simp: allocate_step_def units_to_discount_def Let_def sum_list_replicate
      min_def algebra_simps)

lemma allocate_step_idle: "T \<le> snd st \<Longrightarrow> allocate_step T pct a pr st = st"
  by (simp add: allocate_step_def units_to_discount_def Let_def)

lemma allocate_units:
  assumes "\<forall>x\<in>set cs. map_of e (fst x) \<noteq> None"
  shows "allocate e T pct cs st =
           Inr (fst st + (pct / 100) * sum_list (take (nat (T - snd st)) (unit_prices e cs)),
                snd st + int (length (take (nat (T - snd st)) (unit_prices e cs))))"
  using assms
proof (induction cs arbitrary: st)
  case Nil
  then show ?case by (simp add: unit_prices_def)
next
  case (Cons x cs)
  obtain pid pr where x: "x = (pid, pr)" by (cases x)
  from Cons.prems x obtain data where data: "map_of e pid = Some data" by auto
  define a where "a = fst data"
  define st' where "st' = allocate_step T pct a pr st"
  have av: "available_units e pid = a" by (simp add: available_units_def data a_def)
  have up: "unit_prices e (x # cs) = replicate (nat a) pr @ unit_prices e cs"
    by (simp add: unit_prices_def x av)
  have st': "st' = (fst st + (pct / 100) * sum_list (take (nat (T - snd st)) (replicate (nat a) pr)),
      snd st + int (length (take (nat (T - snd st)) (replicate (nat a) pr))))"
    unfolding st'_def by (rule allocate_step_units)
  have rest: "nat (T - snd st') = nat (T - snd st) - nat a"
    by (auto simp add: st' min_def)
  have IH: "allocate e T pct cs st' =
           Inr (fst st' + (pct / 100) * sum_list (take (nat (T - snd st')) (unit_prices e cs)),
                snd st' + int (length (take (nat (T - snd st')) (unit_prices e cs))))"
    using Cons.IH Cons.prems by simp
  have target: "(fst st + (pct / 100) * sum_list (take (nat (T - snd st)) (unit_prices e (x # cs))),
                snd st + int (length (take (nat (T - snd st)) (unit_prices e (x # cs))))) =
     (fst st' + (pct / 100) * sum_list (take (nat (T - snd st')) (unit_prices e cs)),
      snd st' + int (length (take (nat (T - snd st')) (unit_prices e cs))))"
    unfolding up rest by (simp add: st' algebra_simps)
  show ?case
  proof (cases "units_to_discount a T (snd st) > 0 \<and> snd st' \<ge> T")
    case True
    then have "nat (T - snd st') = 0" by simp
    moreover from True have "allocate e T pct (x # cs) st = Inr st'"
      by (simp add: x data a_def[symmetric] st'_def[symmetric])
    ultimately show ?thesis
      unfolding target by simp
  next
    case False
    then have "allocate e T pct (x # cs) st = allocate e T pct cs st'"
      by (auto simp add: x data a_def[symmetric] st'_def[symmetric] Let_def)
    then show ?thesis
      unfolding target by (simp add: IH)
  qed
qed


lemma sorted_get_products_keys:
  "x \<in> set (sorted_get_products e) \<Longrightarrow> map_of e (fst x) \<noteq> None"
  by (auto simp: sorted_get_products_def map_of_eq_None_iff image_iff split: prod.splits)
    (metis fst_conv)







lemma fold_update_distinct:
  "distinct (map fst acc) \<Longrightarrow>
   distinct (map fst (fold (\<lambda>pid e. case map_of c pid of None \<Rightarrow> e
                                      | Some item \<Rightarrow> AList.update pid (v item) e) pids acc))"
  by (induction pids arbitrary: acc) (auto simp: distinct_update split: option.splits)

lemma fold_update_map_of:
  "map_of (fold (\<lambda>pid e. case map_of c pid of None \<Rightarrow> e
                         | Some item \<Rightarrow> AList.update pid (v item) e) pids acc) p =
     (if p \<in> set pids
      then (case map_of c p of None \<Rightarrow> map_of acc p | Some item \<Rightarrow> Some (v item))
      else map_of acc p)"
  by (induction pids arbitrary: acc) (auto simp: update_conv' split: option.splits)



lemma map_of_eligible_get_products:
  "map_of (eligible_get_products c pids) p =
     (if p \<in> set pids then map_option (\<lambda>item. (quantity item, price item)) (map_of c p) else None)"
  unfolding eligible_get_products_def by (simp add: fold_update_map_of split: option.splits)


lemma distinct_eligible_buy_products: "distinct (map fst (eligible_buy_products c pids))"
  unfolding eligible_buy_products_def by (rule fold_update_distinct) simp

lemma map_of_eligible_buy_products:
  "map_of (eligible_buy_products c pids) p =
     (if p \<in> set pids then map_option quantity (map_of c p) else None)"
  unfolding eligible_buy_products_def by (simp add: fold_update_map_of split: option.splits)



lemma allocate_sorted_get_products:
  "allocate e T pct (sorted_get_products e) (0, 0) =
     Inr ((pct / 100) * sum_list (take (nat T) (unit_prices e (sorted_get_products e))),
          int (length (take (nat T) (unit_prices e (sorted_get_products e)))))"
  using allocate_units[of "sorted_get_products e" e T pct "(0, 0)"]
  by (simp add: sorted_get_products_keys)

lemma bxgy_discount_units:
  "bxgy_discount c d =
     (if eligible_buy_products c (buy_products d) = [] \<or>
         eligible_get_products c (get_products d) = [] then Inr 0
      else if buy_quantity d = 0 then Inl ZeroDivisionError
      else if buy_units_of c d \<le> 0 then Inr 0
      else Inr ((bx_discount_percentage d / 100) *
                sum_list (take (nat (buy_units_of c d * get_quantity d))
                  (unit_prices (eligible_get_products c (get_products d))
                     (sorted_get_products (eligible_get_products c (get_products d)))))))"
  by (simp add: bxgy_discount_def Let_def allocate_sorted_get_products)




section \<open>The product-wise loop and the steps of \<^verbatim>\<open>apply_coupon\<close>\<close>

lemma product_wise_loop_sum:
  assumes "min_quantity d \<noteq> Null"
  shows "product_wise_loop c d pids discount =
           Inr (discount + (\<Sum>pid\<leftarrow>filter (qualifies c d) pids.
                               product_subtotal c pid * (pw_discount_percentage d / 100)))"
  using assms
  by (induction pids arbitrary: discount)
    (auto simp: qualifies_def product_subtotal_def min_quantity_or_default_def
      split: option.splits field.splits)

lemma product_wise_discount_sum:
  "min_quantity d \<noteq> Null \<Longrightarrow>
   product_wise_discount c d =
     Inr (\<Sum>pid\<leftarrow>filter (qualifies c d) (product_ids d).
            product_subtotal c pid * (pw_discount_percentage d / 100))"
  by (simp add: product_wise_discount_def product_wise_loop_sum)

lemma sum_list_split_count:
  fixes f :: "'a \<Rightarrow> rat"
  shows "(\<Sum>x\<leftarrow>xs. f x) = of_nat (count_list xs p) * f p + (\<Sum>x\<leftarrow>filter (\<lambda>q. q \<noteq> p) xs. f x)"
  by (induction xs) (auto simp: algebra_simps)

lemma apply_coupon_evaluated:
  assumes "apply_context st now customer_id cid cu cp c"
  shows "apply_coupon st now applied customer_id cid =
           (case recalculate_discount c cp of
              Inl err \<Rightarrow> Inl err
            | Inr discount \<Rightarrow>
                if discount \<le> 0 then Inl NotApplicable
                else (case use_exclusive cid cu of
                        Inl err \<Rightarrow> Inl err
                      | Inr cu' \<Rightarrow>
                          Inr (make_summary cid cp (cart_total c) discount applied,
                               commit st customer_id cu'
                                 (make_summary cid cp (cart_total c) discount applied))))"
  using assms by (auto simp add: apply_context_def apply_coupon_def Let_def split: sum.splits)

lemma apply_coupon_not_applicable_iff:
  assumes "apply_context st now customer_id cid cu cp c"
    and "recalculate_discount c cp = Inr discount"
  shows "apply_coupon st now applied customer_id cid = Inl NotApplicable \<longleftrightarrow> discount \<le> 0"
  using assms(2) by (auto simp: apply_coupon_evaluated[OF assms(1)] use_exclusive_def Let_def
      split: sum.splits option.splits)

lemma apply_coupon_success:
  assumes "apply_coupon st now applied customer_id cid = Inr (summary, st')"
  obtains cu cp c discount cu' where
    "map_of (customers st) customer_id = Some cu"
    "find (\<lambda>cp. coupon_id cp = cid) (coupons st) = Some cp"
    "validate_coupon now cu cp = None"
    "customer_cart cu = Some c"
    "recalculate_discount c cp = Inr discount" "0 < discount"
    "use_exclusive cid cu = Inr cu'"
    "summary = make_summary cid cp (cart_total c) discount applied"
    "st' = commit st customer_id cu' summary"
  using assms
  apply (simp add: apply_coupon_def Let_def split: option.splits sum.splits if_splits)
  apply (auto simp: validate_coupon_def split: option.splits if_splits sum.splits)
  done

section \<open>The invariant of the allocation loop\<close>

lemma allocate_step_bounds:
  assumes "snd st \<le> T"
  shows "snd st \<le> snd (allocate_step T pct a pr st)"
    and "snd (allocate_step T pct a pr st) \<le> T"
    and "snd (allocate_step T pct a pr st) - snd st = max 0 (units_to_discount a T (snd st))"
  using assms by (auto simp: allocate_step_def units_to_discount_def Let_def)

lemma allocate_bounds:
  assumes "allocate e T pct cs st = Inr st'" and "snd st \<le> T"
  shows "snd st \<le> snd st' \<and> snd st' \<le> T"
  using assms
proof (induction cs arbitrary: st)
  case Nil
  then show ?case by simp
next
  case (Cons x cs)
  obtain pid pr where x: "x = (pid, pr)" by (cases x)
  from Cons.prems(1) x obtain data where data: "map_of e pid = Some data"
    by (auto split: option.splits)
  let ?st1 = "allocate_step T pct (fst data) pr st"
  have b: "snd st \<le> snd ?st1" "snd ?st1 \<le> T"
    using allocate_step_bounds[OF Cons.prems(2)] by blast+
  show ?case
  proof (cases "units_to_discount (fst data) T (snd st) > 0 \<and> snd ?st1 \<ge> T")
    case True
    then have "st' = ?st1" using Cons.prems(1) by (simp add: x data Let_def)
    with b show ?thesis by simp
  next
    case False
    then have "allocate e T pct cs ?st1 = Inr st'"
      using Cons.prems(1) by (auto simp add: x data Let_def)
    from Cons.IH[OF this b(2)] b show ?thesis by simp
  qed
qed

lemma allocate_snoc:
  assumes "map_of e pid = Some data"
  shows "allocate e T pct (cs @ [(pid, pr)]) st =
           (case allocate e T pct cs st of
              Inl err \<Rightarrow> Inl err
            | Inr st1 \<Rightarrow> Inr (allocate_step T pct (fst data) pr st1))"
proof (induction cs arbitrary: st)
  case Nil
  then show ?case by (simp add: assms Let_def)
next
  case (Cons x cs)
  obtain q r where x: "x = (q, r)" by (cases x)
  show ?case
  proof (cases "map_of e q")
    case None
    then show ?thesis by (simp add: x)
  next
    case (Some dq)
    let ?st1 = "allocate_step T pct (fst dq) r st"
    show ?thesis
    proof (cases "units_to_discount (fst dq) T (snd st) > 0 \<and> snd ?st1 \<ge> T")
      case True
      then have "allocate_step T pct (fst data) pr ?st1 = ?st1"
        by (simp add: allocate_step_idle)
      with True show ?thesis by (simp add: x Some Let_def)
    next
      case False
      then show ?thesis using Cons.IH[of ?st1] by (auto simp add: x Some Let_def)
    qed
  qed
qed

lemma allocate_total:
  assumes "\<forall>x\<in>set cs. map_of e (fst x) \<noteq> None"
  shows "\<exists>st'. allocate e T pct cs st = Inr st'"
  using allocate_units[OF assms] by blast

section \<open>Discounts never exceed the cart total\<close>


















section \<open>Cart-wise coupons\<close>

lemma recalculate_discount_cart_wise:
  assumes "ctype cp = CartWise d" and "max_discount d \<noteq> Null"
  shows "recalculate_discount c cp =
           Inr (if threshold d \<le> cart_total c
                then (case max_discount d of
                        Val m \<Rightarrow> min (cart_total c * (cw_discount_percentage d / 100)) m
                      | _ \<Rightarrow> cart_total c * (cw_discount_percentage d / 100))
                else 0)"
  using assms by (simp add: recalculate_discount_def cart_wise_min_def split: field.splits)

lemma list_entry_cart_wise:
  assumes "ctype cp = CartWise d" and "max_discount d \<noteq> Null"
  shows "list_entry c cp =
           Inr (if threshold d \<le> cart_total c
                then Some (case max_discount d of
                        Val m \<Rightarrow> min (cart_total c * (cw_discount_percentage d / 100)) m
                      | _ \<Rightarrow> cart_total c * (cw_discount_percentage d / 100))
                else None)"
  using assms by (simp add: list_entry_def cart_wise_min_def split: field.splits)

text \<open>
  A cart whose total meets the threshold of a cart-wise coupon need not make the coupon
  applicable in \<^verbatim>\<open>apply_coupon\<close>: on a cart of one free sample (total 0) the coupon
  with threshold 0 has a discount of 0, and the check \<^verbatim>\<open>discount <= 0\<close> rejects it.
\<close>

theorem cart_wise_threshold_met_not_applicable:
  "threshold any10_details \<le> cart_total free_cart
   \<and> apply_coupon (mock_db (mock_customer\<lparr>customer_cart := Some free_cart\<rparr>) [any10_coupon])
         100 100 mock_customer_id ''ANY10'' = Inl NotApplicable"
  by (simp add: eval_defs mock_defs)

text \<open>
  C1 (as amended). For every cart and cart-wise coupon whose \<^verbatim>\<open>max_discount\<close> is a
  number or is missing from the stored details: below the threshold the discount is 0 and the
  coupon is not listed; from the threshold on (inclusive) the discount is
  \<open>min (total \<times> discount_percentage / 100) max_discount\<close> when \<^verbatim>\<open>max_discount\<close> is a
  number and exactly \<open>total \<times> discount_percentage / 100\<close> when it is missing; a coupon with a
  positive discount is listed with that discount; and a call of \<^verbatim>\<open>apply_coupon\<close> that
  reaches the recalculation is rejected as not applicable exactly when the threshold is not
  met or the discount is not positive.
\<close>

theorem cart_wise_discount_and_applicability:
  assumes "ctype cp = CartWise d" and "max_discount d \<noteq> Null"
  shows "(cart_total c < threshold d \<longrightarrow>
            recalculate_discount c cp = Inr 0 \<and> list_entry c cp = Inr None)
       \<and> (threshold d \<le> cart_total c \<longrightarrow>
            recalculate_discount c cp =
              Inr (case max_discount d of
                     Val m \<Rightarrow> min (cart_total c * (cw_discount_percentage d / 100)) m
                   | _ \<Rightarrow> cart_total c * (cw_discount_percentage d / 100)))
       \<and> (\<forall>x. recalculate_discount c cp = Inr x \<and> 0 < x \<longrightarrow> list_entry c cp = Inr (Some x))
       \<and> (\<forall>x. apply_context st now customer_id cid cu cp c \<and> recalculate_discount c cp = Inr x \<longrightarrow>
              (apply_coupon st now applied customer_id cid = Inl NotApplicable
               \<longleftrightarrow> \<not> (threshold d \<le> cart_total c \<and> 0 < x)))"
proof (intro conjI allI impI)
  assume "cart_total c < threshold d"
  then show "recalculate_discount c cp = Inr 0" "list_entry c cp = Inr None"
    by (simp_all add: recalculate_discount_cart_wise[OF assms] list_entry_cart_wise[OF assms])
next
  assume "threshold d \<le> cart_total c"
  then show "recalculate_discount c cp =
              Inr (case max_discount d of
                     Val m \<Rightarrow> min (cart_total c * (cw_discount_percentage d / 100)) m
                   | _ \<Rightarrow> cart_total c * (cw_discount_percentage d / 100))"
    by (simp add: recalculate_discount_cart_wise[OF assms])
next
  fix x assume "recalculate_discount c cp = Inr x \<and> 0 < x"
  then show "list_entry c cp = Inr (Some x)"
    by (auto simp: recalculate_discount_cart_wise[OF assms] list_entry_cart_wise[OF assms]
        split: if_splits)
next
  fix x assume a: "apply_context st now customer_id cid cu cp c \<and> recalculate_discount c cp = Inr x"
  then have "x \<le> 0 \<longleftrightarrow> \<not> (threshold d \<le> cart_total c \<and> 0 < x)"
    by (auto simp: recalculate_discount_cart_wise[OF assms] split: if_splits)
  with a show "apply_coupon st now applied customer_id cid = Inl NotApplicable
               \<longleftrightarrow> \<not> (threshold d \<le> cart_total c \<and> 0 < x)"
    using apply_coupon_not_applicable_iff[of st now customer_id cid cu cp c x applied] by blast
qed

text \<open>The test suite's \<^verbatim>\<open>CART20\<close> coupon on its cart of 150: a discount of 30.\<close>

theorem cart_wise_discount_and_applicability_witness:
  "recalculate_discount mock_cart mock_cart_coupon = Inr 30
   \<and> list_entry mock_cart mock_cart_coupon = Inr (Some 30)
   \<and> apply_coupon (mock_db mock_customer [mock_cart_coupon]) 100 100 mock_customer_id ''CART20''
       \<noteq> Inl NotApplicable"
proof -
  have h1: "ctype mock_cart_coupon = CartWise mock_cart_details"
    by (simp add: mock_cart_coupon_def)
  have h2: "max_discount mock_cart_details \<noteq> Null" by (simp add: mock_cart_details_def)
  have tot: "cart_total mock_cart = 150" by (simp add: cart_total_def mock_cart_def)
  have ctx: "apply_context (mock_db mock_customer [mock_cart_coupon]) 100 mock_customer_id ''CART20''
               mock_customer mock_cart_coupon mock_cart"
    by (simp add: apply_context_def validate_coupon_def user_tiers_or_default_def customer_tier_of_def mock_defs)
  note T = cart_wise_discount_and_applicability[OF h1 h2,
      of mock_cart "mock_db mock_customer [mock_cart_coupon]" 100 mock_customer_id "''CART20''"
         mock_customer 100]
  from T have r: "recalculate_discount mock_cart mock_cart_coupon = Inr 30"
    by (simp add: tot mock_cart_details_def)
  with T have l: "list_entry mock_cart mock_cart_coupon = Inr (Some 30)" by simp
  from T ctx r have "apply_coupon (mock_db mock_customer [mock_cart_coupon]) 100 100
       mock_customer_id ''CART20'' \<noteq> Inl NotApplicable"
    by (simp add: tot mock_cart_details_def)
  with r l show ?thesis by simp
qed

section \<open>Product-wise coupons\<close>

lemma list_entry_product_wise:
  assumes "ctype cp = ProductWise d" and "recalculate_discount c cp = Inr x"
  shows "list_entry c cp = Inr (if 0 < x then Some x else None)"
  using assms by (simp add: list_entry_def recalculate_discount_def)

text \<open>
  C4. For every cart and product-wise coupon, the discount is the sum, over the entries of
  the coupon's \<^verbatim>\<open>product_ids\<close> that qualify (in the cart with a quantity of at least
  \<^verbatim>\<open>min_quantity\<close>), of \<open>subtotal \<times> discount_percentage / 100\<close>; entries that are
  not in the cart or are below \<^verbatim>\<open>min_quantity\<close> add nothing and do not disqualify the
  coupon; the coupon is applicable (listed, and not rejected as not applicable by
  \<^verbatim>\<open>apply_coupon\<close>) exactly when this sum is positive.
\<close>

theorem product_wise_discount_is_sum_of_qualifying:
  assumes "ctype cp = ProductWise d" and "min_quantity d \<noteq> Null"
  shows "recalculate_discount c cp =
           Inr (\<Sum>pid\<leftarrow>filter (qualifies c d) (product_ids d).
                  product_subtotal c pid * (pw_discount_percentage d / 100))
       \<and> list_entry c cp =
           Inr (if 0 < (\<Sum>pid\<leftarrow>filter (qualifies c d) (product_ids d).
                          product_subtotal c pid * (pw_discount_percentage d / 100))
                then Some (\<Sum>pid\<leftarrow>filter (qualifies c d) (product_ids d).
                          product_subtotal c pid * (pw_discount_percentage d / 100))
                else None)
       \<and> (apply_context st now customer_id cid cu cp c \<longrightarrow>
             (apply_coupon st now applied customer_id cid = Inl NotApplicable
              \<longleftrightarrow> \<not> 0 < (\<Sum>pid\<leftarrow>filter (qualifies c d) (product_ids d).
                          product_subtotal c pid * (pw_discount_percentage d / 100))))"
proof -
  let ?S = "\<Sum>pid\<leftarrow>filter (qualifies c d) (product_ids d).
              product_subtotal c pid * (pw_discount_percentage d / 100)"
  have r: "recalculate_discount c cp = Inr ?S"
    by (simp add: recalculate_discount_def assms(1) product_wise_discount_sum[OF assms(2)])
  have l: "list_entry c cp = Inr (if 0 < ?S then Some ?S else None)"
    by (rule list_entry_product_wise[OF assms(1) r])
  have a: "apply_coupon st now applied customer_id cid = Inl NotApplicable \<longleftrightarrow> \<not> 0 < ?S"
    if "apply_context st now customer_id cid cu cp c"
    using apply_coupon_not_applicable_iff[OF that r, of applied] by auto
  from r l a show ?thesis by blast
qed

theorem product_wise_discount_is_sum_of_qualifying_witness:
  "recalculate_discount mock_cart mock_product_coupon = Inr 15
   \<and> list_entry mock_cart mock_product_coupon = Inr (Some 15)
   \<and> filter (qualifies mock_cart mock_product_details) (product_ids mock_product_details)
       = [''p123'']"
proof -
  have h1: "ctype mock_product_coupon = ProductWise mock_product_details"
    by (simp add: mock_product_coupon_def)
  have h2: "min_quantity mock_product_details \<noteq> Null" by (simp add: mock_product_details_def)
  have q: "filter (qualifies mock_cart mock_product_details) (product_ids mock_product_details)
       = [''p123'']"
    by (simp add: qualifies_def min_quantity_or_default_def mock_defs)
  have s: "product_subtotal mock_cart ''p123'' = 100"
    by (simp add: product_subtotal_def mock_cart_def)
  note T = product_wise_discount_is_sum_of_qualifying[OF h1 h2, of mock_cart]
  from T show ?thesis
    unfolding q by (simp add: s mock_product_details_def)
qed

text \<open>
  C10. For every product-wise coupon and every cart in which the product \<open>p\<close> qualifies, the
  contribution \<open>subtotal \<times> discount_percentage / 100\<close> of \<open>p\<close> is added once for each
  occurrence of \<open>p\<close> in the coupon's \<^verbatim>\<open>product_ids\<close> list: the discount is that
  contribution times the number of occurrences, plus the contributions of the other entries.
\<close>

theorem product_wise_duplicates_multiply:
  assumes "ctype cp = ProductWise d" and "min_quantity d \<noteq> Null" and "qualifies c d p"
  shows "recalculate_discount c cp =
           Inr (of_nat (count_list (product_ids d) p)
                  * (product_subtotal c p * (pw_discount_percentage d / 100))
                + (\<Sum>q\<leftarrow>filter (\<lambda>q. q \<noteq> p \<and> qualifies c d q) (product_ids d).
                     product_subtotal c q * (pw_discount_percentage d / 100)))
       \<and> list_entry c cp =
           (case recalculate_discount c cp of
              Inl err \<Rightarrow> Inl err
            | Inr x \<Rightarrow> Inr (if 0 < x then Some x else None))"
proof -
  let ?f = "\<lambda>q. product_subtotal c q * (pw_discount_percentage d / 100)"
  let ?g = "\<lambda>q. if qualifies c d q then ?f q else 0"
  have "(\<Sum>q\<leftarrow>filter (qualifies c d) (product_ids d). ?f q) = (\<Sum>q\<leftarrow>product_ids d. ?g q)"
    by (rule sum_list_map_filter')
  also have "\<dots> = of_nat (count_list (product_ids d) p) * ?g p
                   + (\<Sum>q\<leftarrow>filter (\<lambda>q. q \<noteq> p) (product_ids d). ?g q)"
    by (rule sum_list_split_count)
  also have "(\<Sum>q\<leftarrow>filter (\<lambda>q. q \<noteq> p) (product_ids d). ?g q) =
             (\<Sum>q\<leftarrow>filter (qualifies c d) (filter (\<lambda>q. q \<noteq> p) (product_ids d)). ?f q)"
    by (rule sum_list_map_filter'[symmetric])
  finally have "(\<Sum>q\<leftarrow>filter (qualifies c d) (product_ids d). ?f q) =
      of_nat (count_list (product_ids d) p) * ?f p
      + (\<Sum>q\<leftarrow>filter (\<lambda>q. q \<noteq> p \<and> qualifies c d q) (product_ids d). ?f q)"
    using assms(3) by (simp add: conj_commute)
  moreover have r: "recalculate_discount c cp = Inr (\<Sum>q\<leftarrow>filter (qualifies c d) (product_ids d). ?f q)"
    by (simp add: recalculate_discount_def assms(1) product_wise_discount_sum[OF assms(2)])
  moreover have "list_entry c cp =
           (case recalculate_discount c cp of
              Inl err \<Rightarrow> Inl err
            | Inr x \<Rightarrow> Inr (if 0 < x then Some x else None))"
    by (simp add: list_entry_product_wise[OF assms(1) r] r)
  ultimately show ?thesis by simp
qed

theorem product_wise_duplicates_multiply_witness:
  "qualifies mock_cart (mock_product_details\<lparr>product_ids := [''p123'', ''p456'', ''p123'']\<rparr>) ''p123''
   \<and> recalculate_discount mock_cart
       (mock_product_coupon\<lparr>ctype := ProductWise
          (mock_product_details\<lparr>product_ids := [''p123'', ''p456'', ''p123'']\<rparr>)\<rparr>) = Inr 30"
proof -
  let ?d = "mock_product_details\<lparr>product_ids := [''p123'', ''p456'', ''p123'']\<rparr>"
  let ?cp = "mock_product_coupon\<lparr>ctype := ProductWise ?d\<rparr>"
  have h1: "ctype ?cp = ProductWise ?d" by simp
  have h2: "min_quantity ?d \<noteq> Null" by (simp add: mock_product_details_def)
  have h3: "qualifies mock_cart ?d ''p123''"
    by (simp add: qualifies_def min_quantity_or_default_def mock_defs)
  from product_wise_duplicates_multiply[OF h1 h2 h3]
  have "recalculate_discount mock_cart ?cp = Inr 30"
    by (simp add: product_subtotal_def qualifies_def min_quantity_or_default_def mock_defs)
  with h3 show ?thesis by simp
qed

section \<open>The repetition limit of a bxgy coupon\<close>

lemma apply_repetition_limit_zero: "apply_repetition_limit (Val 0) buy_units = buy_units"
  by (simp add: apply_repetition_limit_def)

lemma apply_repetition_limit_nonzero:
  "n \<noteq> 0 \<Longrightarrow> apply_repetition_limit (Val n) buy_units = min buy_units n"
  by (simp add: apply_repetition_limit_def)

lemma bxgy_discount_limit_zero_as_missing:
  "bxgy_discount c (d\<lparr>repetition_limit := Val 0\<rparr>) = bxgy_discount c (d\<lparr>repetition_limit := Missing\<rparr>)"
proof -
  have "buy_units_of c (d\<lparr>repetition_limit := Val 0\<rparr>) = buy_units_of c (d\<lparr>repetition_limit := Missing\<rparr>)"
    by (simp add: buy_units_of_def apply_repetition_limit_def)
  then show ?thesis by (simp add: bxgy_discount_units)
qed

text \<open>
  C3. Setting \<^verbatim>\<open>repetition_limit\<close> to 0 should force the discount to 0. The source
  tests the limit for truthiness, so a limit of 0 is skipped like a missing one: on the
  test suite's cart the \<^verbatim>\<open>BUY2GET1\<close> coupon with limit 0 is applied with a discount
  of 20 and is listed with that discount.
\<close>

theorem repetition_limit_zero_still_discounts:
  "map_sum id (discount_amount \<circ> fst)
     (apply_coupon
        (mock_db mock_customer
           [mock_bxgy_coupon\<lparr>ctype := BxGy (mock_bxgy_details\<lparr>repetition_limit := Val 0\<rparr>)\<rparr>])
        100 100 mock_customer_id ''BUY2GET1'') = Inr 20
   \<and> map_sum id (map snd)
     (get_applicable_coupons
        (mock_db mock_customer
           [mock_bxgy_coupon\<lparr>ctype := BxGy (mock_bxgy_details\<lparr>repetition_limit := Val 0\<rparr>)\<rparr>])
        100 mock_customer_id) = Inr [20]"
  by (simp add: eval_defs mock_defs)

section \<open>The order of the get-candidates\<close>





section \<open>The units discounted by a bxgy coupon\<close>

lemma eligible_get_products_quantity_nonneg:
  assumes "\<forall>x\<in>set c. 0 \<le> quantity (snd x)"
    and "map_of (eligible_get_products c pids) pid = Some data"
  shows "0 \<le> fst data"
proof -
  from assms(2) obtain item where "map_of c pid = Some item" "data = (quantity item, price item)"
    by (auto simp: map_of_eligible_get_products split: if_splits)
  moreover from this have "(pid, item) \<in> set c" by (simp add: map_of_SomeD)
  ultimately show ?thesis using assms(1) by auto
qed

text \<open>
  C5. In every bxgy allocation (the branch \<^verbatim>\<open>buy_units > 0\<close>, with quantities that are
  not negative), after any number \<open>k\<close> of candidates \<^verbatim>\<open>units_discounted\<close> lies between
  0 and \<^verbatim>\<open>total_get_units = buy_units * get_quantity\<close>; the next candidate is
  handled by one step of the loop, which adds between 0 and
  \<open>min available_units (total_get_units - units_discounted)\<close> units.
\<close>

theorem allocation_never_exceeds_total_get_units:
  assumes "0 < buy_units_of c d" and "0 \<le> get_quantity d"
    and "\<forall>x\<in>set c. 0 \<le> quantity (snd x)"
  shows "\<exists>st. allocate (eligible_get_products c (get_products d))
                (buy_units_of c d * get_quantity d) (bx_discount_percentage d)
                (take k (sorted_get_products (eligible_get_products c (get_products d)))) (0, 0)
              = Inr st
            \<and> 0 \<le> snd st \<and> snd st \<le> buy_units_of c d * get_quantity d
            \<and> (\<forall>pid pr data.
                  k < length (sorted_get_products (eligible_get_products c (get_products d)))
                  \<and> sorted_get_products (eligible_get_products c (get_products d)) ! k = (pid, pr)
                  \<and> map_of (eligible_get_products c (get_products d)) pid = Some data
                  \<longrightarrow>
                  allocate (eligible_get_products c (get_products d))
                    (buy_units_of c d * get_quantity d) (bx_discount_percentage d)
                    (take (Suc k) (sorted_get_products (eligible_get_products c (get_products d))))
                    (0, 0)
                  = Inr (allocate_step (buy_units_of c d * get_quantity d)
                           (bx_discount_percentage d) (fst data) pr st)
                  \<and> 0 \<le> snd (allocate_step (buy_units_of c d * get_quantity d)
                           (bx_discount_percentage d) (fst data) pr st) - snd st
                  \<and> snd (allocate_step (buy_units_of c d * get_quantity d)
                           (bx_discount_percentage d) (fst data) pr st) - snd st
                      \<le> units_to_discount (fst data) (buy_units_of c d * get_quantity d) (snd st)
                  \<and> snd (allocate_step (buy_units_of c d * get_quantity d)
                           (bx_discount_percentage d) (fst data) pr st)
                      \<le> buy_units_of c d * get_quantity d)"
proof -
  define e where "e = eligible_get_products c (get_products d)"
  define T where "T = buy_units_of c d * get_quantity d"
  define pct where "pct = bx_discount_percentage d"
  define cs where "cs = sorted_get_products e"
  have T0: "0 \<le> T" using assms(1,2) by (simp add: T_def)
  have keys: "\<forall>x\<in>set (take k cs). map_of e (fst x) \<noteq> None"
    by (auto simp: cs_def dest!: in_set_takeD sorted_get_products_keys)
  from allocate_total[OF keys] obtain st where st: "allocate e T pct (take k cs) (0, 0) = Inr st"
    by blast
  from allocate_bounds[OF st] T0 have b: "0 \<le> snd st" "snd st \<le> T" by simp_all
  have step: "allocate e T pct (take (Suc k) cs) (0, 0) = Inr (allocate_step T pct (fst data) pr st)
        \<and> 0 \<le> snd (allocate_step T pct (fst data) pr st) - snd st
        \<and> snd (allocate_step T pct (fst data) pr st) - snd st \<le> units_to_discount (fst data) T (snd st)
        \<and> snd (allocate_step T pct (fst data) pr st) \<le> T"
    if k: "k < length cs" and nth: "cs ! k = (pid, pr)" and data: "map_of e pid = Some data"
    for pid pr data
  proof -
    have "take (Suc k) cs = take k cs @ [(pid, pr)]"
      using k nth by (simp add: take_Suc_conv_app_nth)
    then have "allocate e T pct (take (Suc k) cs) (0, 0) = Inr (allocate_step T pct (fst data) pr st)"
      by (simp add: allocate_snoc[OF data] st)
    moreover have "0 \<le> fst data"
      using eligible_get_products_quantity_nonneg[OF assms(3) data[unfolded e_def]] .
    then have "0 \<le> units_to_discount (fst data) T (snd st)"
      using b(2) by (simp add: units_to_discount_def)
    then have "snd (allocate_step T pct (fst data) pr st) - snd st
                 = units_to_discount (fst data) T (snd st)"
      using allocate_step_bounds(3)[OF b(2), of pct "fst data" pr] by simp
    moreover note \<open>0 \<le> units_to_discount (fst data) T (snd st)\<close>
      allocate_step_bounds(2)[OF b(2), of pct "fst data" pr]
    ultimately show ?thesis by simp
  qed
  from st b step show ?thesis
    unfolding e_def T_def pct_def cs_def by blast
qed

theorem allocation_never_exceeds_total_get_units_witness:
  "0 < buy_units_of mock_cart mock_bxgy_details
   \<and> allocate (eligible_get_products mock_cart (get_products mock_bxgy_details))
        (buy_units_of mock_cart mock_bxgy_details * get_quantity mock_bxgy_details)
        (bx_discount_percentage mock_bxgy_details)
        (take (Suc 0) (sorted_get_products
            (eligible_get_products mock_cart (get_products mock_bxgy_details)))) (0, 0)
      = Inr (20, 1)"
proof -
  have h1: "0 < buy_units_of mock_cart mock_bxgy_details"
    by (simp add: eval_defs mock_defs)
  have h2: "0 \<le> get_quantity mock_bxgy_details" by (simp add: mock_bxgy_details_def)
  have h3: "\<forall>x\<in>set mock_cart. 0 \<le> quantity (snd x)" by (simp add: mock_cart_def)
  from allocation_never_exceeds_total_get_units[OF h1 h2 h3, of 0]
  have "allocate (eligible_get_products mock_cart (get_products mock_bxgy_details))
        (buy_units_of mock_cart mock_bxgy_details * get_quantity mock_bxgy_details)
        (bx_discount_percentage mock_bxgy_details)
        (take (Suc 0) (sorted_get_products
            (eligible_get_products mock_cart (get_products mock_bxgy_details)))) (0, 0)
      = Inr (20, 1)"
    by (simp add: eval_defs mock_defs)
  with h1 show ?thesis by simp
qed

section \<open>Applying a coupon\<close>



subsection \<open>The order of the checks\<close>

lemma apply_coupon_checks:
  assumes "map_of (customers st) customer_id = Some cu"
    and "find (\<lambda>cp. coupon_id cp = cid) (coupons st) = Some cp"
  shows "\<not> is_active cp \<or> now < valid_from cp \<Longrightarrow>
           apply_coupon st now applied customer_id cid = Inl NotActiveOrNotYetValid"
    and "is_active cp \<Longrightarrow> valid_from cp \<le> now \<Longrightarrow> valid_until cp = Some u \<Longrightarrow> u < now \<Longrightarrow>
           apply_coupon st now applied customer_id cid = Inl Expired"
    and "is_active cp \<Longrightarrow> valid_from cp \<le> now \<Longrightarrow> \<forall>u. valid_until cp = Some u \<longrightarrow> now \<le> u \<Longrightarrow>
           user_tiers_or_default cp = Inl err \<Longrightarrow>
           apply_coupon st now applied customer_id cid = Inl err"
    and "is_active cp \<Longrightarrow> valid_from cp \<le> now \<Longrightarrow> \<forall>u. valid_until cp = Some u \<longrightarrow> now \<le> u \<Longrightarrow>
           user_tiers_or_default cp = Inr ts \<Longrightarrow> customer_tier_of cu \<notin> set ts \<Longrightarrow>
           apply_coupon st now applied customer_id cid = Inl TierIneligible"
    and "is_active cp \<Longrightarrow> valid_from cp \<le> now \<Longrightarrow> \<forall>u. valid_until cp = Some u \<longrightarrow> now \<le> u \<Longrightarrow>
           user_tiers_or_default cp = Inr ts \<Longrightarrow> customer_tier_of cu \<in> set ts \<Longrightarrow>
           customer_cart cu = None \<or> customer_cart cu = Some [] \<Longrightarrow>
           apply_coupon st now applied customer_id cid = Inl EmptyCart"
    and "is_active cp \<Longrightarrow> valid_from cp \<le> now \<Longrightarrow> \<forall>u. valid_until cp = Some u \<longrightarrow> now \<le> u \<Longrightarrow>
           user_tiers_or_default cp = Inr ts \<Longrightarrow> customer_tier_of cu \<in> set ts \<Longrightarrow>
           customer_cart cu = Some c \<Longrightarrow> c \<noteq> [] \<Longrightarrow>
           apply_context st now customer_id cid cu cp c"
  using assms
  by (auto simp: apply_coupon_def validate_coupon_def apply_context_def split: option.splits)

lemma apply_coupon_coupon_not_found:
  assumes "map_of (customers st) customer_id = Some cu"
    and "find (\<lambda>cp. coupon_id cp = cid) (coupons st) = None"
  shows "apply_coupon st now applied customer_id cid = Inl CouponNotFound"
  using assms by (simp add: apply_coupon_def)


subsection \<open>Exclusive coupons\<close>

lemma usage_remaining_commit:
  assumes "map_of (customers st) customer_id = Some cu"
  shows "usage_remaining (commit st customer_id cu' summary) customer_id cid =
           (case exclusive_coupons cu' of None \<Rightarrow> None | Some ex \<Rightarrow> map_of ex cid)"
  by (simp add: usage_remaining_def commit_def update_conv')

lemma use_exclusive_registered:
  assumes "exclusive_coupons cu = Some ex" and "map_of ex cid = Some n"
  shows "use_exclusive cid cu =
           (if n \<le> 0 then Inl UsageExhausted
            else Inr (cu\<lparr>exclusive_coupons := Some (AList.update cid (n - 1) ex)\<rparr>))"
  using assms by (simp add: use_exclusive_def)

lemma exclusive_success_decrements:
  assumes "usage_remaining st customer_id cid = Some n"
    and "apply_coupon st now applied customer_id cid = Inr (summary, st')"
  shows "0 < n \<and> usage_remaining st' customer_id cid = Some (n - 1)"
proof -
  from assms(1) obtain cu0 ex where
    cu0: "map_of (customers st) customer_id = Some cu0"
    and ex: "exclusive_coupons cu0 = Some ex" and n: "map_of ex cid = Some n"
    by (auto simp: usage_remaining_def split: option.splits)
  from assms(2) obtain cu cu' where
    s: "map_of (customers st) customer_id = Some cu" "use_exclusive cid cu = Inr cu'"
      "st' = commit st customer_id cu' summary"
    by (rule apply_coupon_success)
  from s(1) cu0 have "cu = cu0" by simp
  with s(2) use_exclusive_registered[OF ex n]
  have "0 < n" "cu' = cu0\<lparr>exclusive_coupons := Some (AList.update cid (n - 1) ex)\<rparr>"
    by (auto split: if_splits)
  then show ?thesis
    by (simp add: s(3) usage_remaining_commit[OF cu0] update_conv')
qed

lemma exclusive_evaluated:
  assumes "usage_remaining st customer_id cid = Some n"
    and "apply_context st now customer_id cid cu cp c"
    and "recalculate_discount c cp = Inr discount"
  shows "discount \<le> 0 \<Longrightarrow> apply_coupon st now applied customer_id cid = Inl NotApplicable"
    and "0 < discount \<Longrightarrow> n \<le> 0 \<Longrightarrow>
           apply_coupon st now applied customer_id cid = Inl UsageExhausted"
    and "0 < discount \<Longrightarrow> 0 < n \<Longrightarrow>
           \<exists>summary st'. apply_coupon st now applied customer_id cid = Inr (summary, st')
                        \<and> discount_amount summary = discount"
proof -
  from assms(1) obtain cu0 ex where
    cu0: "map_of (customers st) customer_id = Some cu0"
    and ex: "exclusive_coupons cu0 = Some ex" and n: "map_of ex cid = Some n"
    by (auto simp: usage_remaining_def split: option.splits)
  from assms(2) cu0 have cu: "cu = cu0" by (simp add: apply_context_def)
  note ue = use_exclusive_registered[OF ex n]
  show "discount \<le> 0 \<Longrightarrow> apply_coupon st now applied customer_id cid = Inl NotApplicable"
    by (simp add: apply_coupon_evaluated[OF assms(2)] assms(3))
  show "0 < discount \<Longrightarrow> n \<le> 0 \<Longrightarrow>
           apply_coupon st now applied customer_id cid = Inl UsageExhausted"
    by (simp add: apply_coupon_evaluated[OF assms(2)] assms(3) cu ue)
  show "0 < discount \<Longrightarrow> 0 < n \<Longrightarrow>
           \<exists>summary st'. apply_coupon st now applied customer_id cid = Inr (summary, st')
                        \<and> discount_amount summary = discount"
    by (simp add: apply_coupon_evaluated[OF assms(2)] assms(3) cu ue make_summary_def)
qed

text \<open>
  An exhausted counter is not what every such call fails with: the checks on the coupon, the
  tier and the cart, and the check of the discount, come first. The test suite's customer
  (tier Silver) with the counter of \<^verbatim>\<open>CART20\<close> at 0 is rejected for the tier when the
  coupon is for Gold and Platinum, and as not applicable when the cart is below the threshold.
\<close>

theorem exhausted_counter_other_rejection:
  "usage_remaining
     (mock_db (mock_customer\<lparr>exclusive_coupons := Some [(''CART20'', 0)]\<rparr>)
        [mock_cart_coupon\<lparr>user_tiers := Val [''Gold'', ''Platinum'']\<rparr>])
     mock_customer_id ''CART20'' = Some 0
   \<and> apply_coupon
       (mock_db (mock_customer\<lparr>exclusive_coupons := Some [(''CART20'', 0)]\<rparr>)
          [mock_cart_coupon\<lparr>user_tiers := Val [''Gold'', ''Platinum'']\<rparr>])
       100 100 mock_customer_id ''CART20'' = Inl TierIneligible
   \<and> apply_coupon
       (mock_db (mock_customer\<lparr>exclusive_coupons := Some [(''CART20'', 0)]\<rparr>)
          [mock_cart_coupon\<lparr>ctype := CartWise (mock_cart_details\<lparr>threshold := 200\<rparr>)\<rparr>])
       100 100 mock_customer_id ''CART20'' = Inl NotApplicable"
  by (simp add: usage_remaining_def eval_defs mock_defs)

text \<open>
  C7 (as amended). For every call of \<^verbatim>\<open>apply_coupon\<close> by a customer \<open>cu\<close> for whom the
  coupon is registered as exclusive, with remaining-use counter \<open>n\<close>: when \<open>n \<le> 0\<close> the call
  never succeeds. Whatever the counter is, a call that fails an earlier check is rejected
  with the reason of that check, in the order of the source: the coupon is not found; it is
  not active or has not started; it has expired; the customer's tier is not among the
  coupon's tiers; the cart is empty; the recalculated discount is not positive
  (\<open>NotApplicable\<close>). A call that passes these checks, so that the recalculated discount is
  positive, fails with \<open>UsageExhausted\<close> if \<open>n \<le> 0\<close> and otherwise succeeds with that
  discount. Every successful call leaves the counter at \<open>n - 1\<close>.
\<close>

theorem exclusive_usage:
  assumes "map_of (customers st) customer_id = Some cu"
    and "usage_remaining st customer_id cid = Some n"
  shows "(n \<le> 0 \<longrightarrow> (\<forall>r. apply_coupon st now applied customer_id cid \<noteq> Inr r))
       \<and> (find (\<lambda>cp. coupon_id cp = cid) (coupons st) = None \<longrightarrow>
            apply_coupon st now applied customer_id cid = Inl CouponNotFound)
       \<and> (\<forall>cp. find (\<lambda>cp. coupon_id cp = cid) (coupons st) = Some cp \<longrightarrow>
            (\<not> is_active cp \<or> now < valid_from cp \<longrightarrow>
               apply_coupon st now applied customer_id cid = Inl NotActiveOrNotYetValid)
          \<and> (is_active cp \<and> valid_from cp \<le> now \<and> (\<exists>u. valid_until cp = Some u \<and> u < now) \<longrightarrow>
               apply_coupon st now applied customer_id cid = Inl Expired)
          \<and> (\<forall>ts. is_active cp \<and> valid_from cp \<le> now
                    \<and> (\<forall>u. valid_until cp = Some u \<longrightarrow> now \<le> u)
                    \<and> user_tiers_or_default cp = Inr ts \<longrightarrow>
                 (customer_tier_of cu \<notin> set ts \<longrightarrow>
                    apply_coupon st now applied customer_id cid = Inl TierIneligible)
               \<and> (customer_tier_of cu \<in> set ts
                    \<and> (customer_cart cu = None \<or> customer_cart cu = Some []) \<longrightarrow>
                    apply_coupon st now applied customer_id cid = Inl EmptyCart)
               \<and> (\<forall>c discount.
                     customer_tier_of cu \<in> set ts \<and> customer_cart cu = Some c \<and> c \<noteq> []
                     \<and> recalculate_discount c cp = Inr discount \<longrightarrow>
                       (discount \<le> 0 \<longrightarrow>
                          apply_coupon st now applied customer_id cid = Inl NotApplicable)
                     \<and> (0 < discount \<and> n \<le> 0 \<longrightarrow>
                          apply_coupon st now applied customer_id cid = Inl UsageExhausted)
                     \<and> (0 < discount \<and> 0 < n \<longrightarrow>
                          (\<exists>summary st'.
                             apply_coupon st now applied customer_id cid = Inr (summary, st')
                             \<and> discount_amount summary = discount)))))
       \<and> (\<forall>summary st'.
             apply_coupon st now applied customer_id cid = Inr (summary, st') \<longrightarrow>
               usage_remaining st' customer_id cid = Some (n - 1))"
proof (intro conjI allI impI; (elim conjE exE)?)
  fix r
  assume "n \<le> 0"
  then show "apply_coupon st now applied customer_id cid \<noteq> Inr r"
    using exclusive_success_decrements[OF assms(2), of now applied "fst r" "snd r"] by auto
next
  assume "find (\<lambda>cp. coupon_id cp = cid) (coupons st) = None"
  then show "apply_coupon st now applied customer_id cid = Inl CouponNotFound"
    by (rule apply_coupon_coupon_not_found[OF assms(1)])
next
  fix cp
  assume "find (\<lambda>cp. coupon_id cp = cid) (coupons st) = Some cp"
    and "\<not> is_active cp \<or> now < valid_from cp"
  then show "apply_coupon st now applied customer_id cid = Inl NotActiveOrNotYetValid"
    by (rule apply_coupon_checks(1)[OF assms(1)])
next
  fix cp u
  assume "find (\<lambda>cp. coupon_id cp = cid) (coupons st) = Some cp"
    and "is_active cp" "valid_from cp \<le> now" "valid_until cp = Some u" "u < now"
  then show "apply_coupon st now applied customer_id cid = Inl Expired"
    by (rule apply_coupon_checks(2)[OF assms(1)])
next
  fix cp ts
  assume "find (\<lambda>cp. coupon_id cp = cid) (coupons st) = Some cp"
    and "is_active cp" "valid_from cp \<le> now" "\<forall>u. valid_until cp = Some u \<longrightarrow> now \<le> u"
    "user_tiers_or_default cp = Inr ts" "customer_tier_of cu \<notin> set ts"
  then show "apply_coupon st now applied customer_id cid = Inl TierIneligible"
    by (rule apply_coupon_checks(4)[OF assms(1)])
next
  fix cp ts
  assume "find (\<lambda>cp. coupon_id cp = cid) (coupons st) = Some cp"
    and "is_active cp" "valid_from cp \<le> now" "\<forall>u. valid_until cp = Some u \<longrightarrow> now \<le> u"
    "user_tiers_or_default cp = Inr ts" "customer_tier_of cu \<in> set ts"
    "customer_cart cu = None \<or> customer_cart cu = Some []"
  then show "apply_coupon st now applied customer_id cid = Inl EmptyCart"
    by (rule apply_coupon_checks(5)[OF assms(1)])
next
  fix cp ts c discount
  assume "find (\<lambda>cp. coupon_id cp = cid) (coupons st) = Some cp"
    and "is_active cp" "valid_from cp \<le> now" "\<forall>u. valid_until cp = Some u \<longrightarrow> now \<le> u"
    "user_tiers_or_default cp = Inr ts" "customer_tier_of cu \<in> set ts"
    "customer_cart cu = Some c" "c \<noteq> []"
    and d: "recalculate_discount c cp = Inr discount" and "discount \<le> 0"
  then have "apply_context st now customer_id cid cu cp c"
    by (intro apply_coupon_checks(6)[OF assms(1)])
  from exclusive_evaluated(1)[OF assms(2) this d \<open>discount \<le> 0\<close>]
  show "apply_coupon st now applied customer_id cid = Inl NotApplicable" .
next
  fix cp ts c discount
  assume "find (\<lambda>cp. coupon_id cp = cid) (coupons st) = Some cp"
    and "is_active cp" "valid_from cp \<le> now" "\<forall>u. valid_until cp = Some u \<longrightarrow> now \<le> u"
    "user_tiers_or_default cp = Inr ts" "customer_tier_of cu \<in> set ts"
    "customer_cart cu = Some c" "c \<noteq> []"
    and d: "recalculate_discount c cp = Inr discount" and p: "0 < discount" "n \<le> 0"
  then have "apply_context st now customer_id cid cu cp c"
    by (intro apply_coupon_checks(6)[OF assms(1)])
  from exclusive_evaluated(2)[OF assms(2) this d p]
  show "apply_coupon st now applied customer_id cid = Inl UsageExhausted" .
next
  fix cp ts c discount
  assume "find (\<lambda>cp. coupon_id cp = cid) (coupons st) = Some cp"
    and "is_active cp" "valid_from cp \<le> now" "\<forall>u. valid_until cp = Some u \<longrightarrow> now \<le> u"
    "user_tiers_or_default cp = Inr ts" "customer_tier_of cu \<in> set ts"
    "customer_cart cu = Some c" "c \<noteq> []"
    and d: "recalculate_discount c cp = Inr discount" and p: "0 < discount" "0 < n"
  then have "apply_context st now customer_id cid cu cp c"
    by (intro apply_coupon_checks(6)[OF assms(1)])
  from exclusive_evaluated(3)[OF assms(2) this d p]
  show "\<exists>summary st'. apply_coupon st now applied customer_id cid = Inr (summary, st')
                        \<and> discount_amount summary = discount" .
next
  fix summary st'
  assume "apply_coupon st now applied customer_id cid = Inr (summary, st')"
  from exclusive_success_decrements[OF assms(2) this]
  show "usage_remaining st' customer_id cid = Some (n - 1)" by simp
qed


theorem exclusive_usage_witness:
  "usage_remaining
     (mock_db (mock_customer\<lparr>exclusive_coupons := Some [(''CART20'', 2)]\<rparr>) [mock_cart_coupon])
     mock_customer_id ''CART20'' = Some 2
   \<and> (\<exists>summary st'.
         apply_coupon
           (mock_db (mock_customer\<lparr>exclusive_coupons := Some [(''CART20'', 2)]\<rparr>) [mock_cart_coupon])
           100 100 mock_customer_id ''CART20'' = Inr (summary, st')
         \<and> discount_amount summary = 30
         \<and> usage_remaining st' mock_customer_id ''CART20'' = Some 1)
   \<and> usage_remaining
       (mock_db (mock_customer\<lparr>exclusive_coupons := Some [(''CART20'', 0)]\<rparr>) [mock_cart_coupon])
       mock_customer_id ''CART20'' = Some 0
   \<and> apply_coupon
       (mock_db (mock_customer\<lparr>exclusive_coupons := Some [(''CART20'', 0)]\<rparr>) [mock_cart_coupon])
       100 100 mock_customer_id ''CART20'' = Inl UsageExhausted"
proof -
  define cu2 where "cu2 = mock_customer\<lparr>exclusive_coupons := Some [(''CART20'', 2)]\<rparr>"
  define cu0 where "cu0 = mock_customer\<lparr>exclusive_coupons := Some [(''CART20'', 0)]\<rparr>"
  define st2 where "st2 = mock_db cu2 [mock_cart_coupon]"
  define st0 where "st0 = mock_db cu0 [mock_cart_coupon]"
  have c2: "map_of (customers st2) mock_customer_id = Some cu2"
    and c0: "map_of (customers st0) mock_customer_id = Some cu0"
    by (simp_all add: st2_def st0_def mock_db_def)
  have u2: "usage_remaining st2 mock_customer_id ''CART20'' = Some 2"
    and u0: "usage_remaining st0 mock_customer_id ''CART20'' = Some 0"
    by (simp_all add: usage_remaining_def st2_def st0_def cu2_def cu0_def mock_defs)
  have f2: "find (\<lambda>cp. coupon_id cp = ''CART20'') (coupons st2) = Some mock_cart_coupon"
    and f0: "find (\<lambda>cp. coupon_id cp = ''CART20'') (coupons st0) = Some mock_cart_coupon"
    by (simp_all add: st2_def st0_def mock_defs)
  have valid: "is_active mock_cart_coupon \<and> valid_from mock_cart_coupon \<le> 100
                \<and> (\<forall>u. valid_until mock_cart_coupon = Some u \<longrightarrow> 100 \<le> u)
                \<and> user_tiers_or_default mock_cart_coupon = Inr all_tiers"
    by (simp add: user_tiers_or_default_def mock_cart_coupon_def)
  have d: "recalculate_discount mock_cart mock_cart_coupon = Inr 30"
    by (simp add: eval_defs mock_defs)
  have e2: "customer_tier_of cu2 \<in> set all_tiers \<and> customer_cart cu2 = Some mock_cart
              \<and> mock_cart \<noteq> [] \<and> recalculate_discount mock_cart mock_cart_coupon = Inr 30"
    and e0: "customer_tier_of cu0 \<in> set all_tiers \<and> customer_cart cu0 = Some mock_cart
              \<and> mock_cart \<noteq> [] \<and> recalculate_discount mock_cart mock_cart_coupon = Inr 30"
    by (simp_all add: d) (simp_all add: customer_tier_of_def cu2_def cu0_def mock_defs)
  note T2 = exclusive_usage[OF c2 u2, of 100 100] and T0 = exclusive_usage[OF c0 u0, of 100 100]
  note E2 = T2[THEN conjunct2, THEN conjunct2, THEN conjunct1, rule_format, OF f2,
      THEN conjunct2, THEN conjunct2, rule_format, OF valid,
      THEN conjunct2, THEN conjunct2, rule_format, OF e2]
  note E0 = T0[THEN conjunct2, THEN conjunct2, THEN conjunct1, rule_format, OF f0,
      THEN conjunct2, THEN conjunct2, rule_format, OF valid,
      THEN conjunct2, THEN conjunct2, rule_format, OF e0]
  from E2[THEN conjunct2, THEN conjunct2] obtain summary st' where
    ap: "apply_coupon st2 100 100 mock_customer_id ''CART20'' = Inr (summary, st')"
    and da: "discount_amount summary = 30"
    by auto
  have dec: "usage_remaining st' mock_customer_id ''CART20'' = Some 1"
    using T2[THEN conjunct2, THEN conjunct2, THEN conjunct2, rule_format, OF ap] by simp
  have ex: "apply_coupon st0 100 100 mock_customer_id ''CART20'' = Inl UsageExhausted"
    using E0[THEN conjunct2, THEN conjunct1] by simp
  from ap da dec have "\<exists>summary st'.
         apply_coupon st2 100 100 mock_customer_id ''CART20'' = Inr (summary, st')
         \<and> discount_amount summary = 30
         \<and> usage_remaining st' mock_customer_id ''CART20'' = Some 1"
    by blast
  with u2 u0 ex show ?thesis
    unfolding st2_def st0_def cu2_def cu0_def by (intro conjI)
qed


subsection \<open>The empty cart\<close>

lemma empty_cart_never_succeeds:
  assumes "map_of (customers st) customer_id = Some cu"
    and "customer_cart cu = None \<or> customer_cart cu = Some []"
  shows "apply_coupon st now applied customer_id cid \<noteq> Inr r"
proof
  assume "apply_coupon st now applied customer_id cid = Inr r"
  then have "apply_coupon st now applied customer_id cid = Inr (fst r, snd r)" by simp
  then obtain cu0 cp0 c0 where "map_of (customers st) customer_id = Some cu0"
    "validate_coupon now cu0 cp0 = None" "customer_cart cu0 = Some c0"
    by (rule apply_coupon_success)
  with assms show False
    by (auto simp: validate_coupon_def split: if_splits sum.splits)
qed

text \<open>
  \<^verbatim>\<open>apply_coupon\<close> looks at the cart after the coupon and the tier: the test suite's
  customer (tier Silver) with an empty cart is rejected for the tier, not for the cart, when
  the coupon is for Gold and Platinum.
\<close>

theorem empty_cart_other_rejection:
  "apply_coupon
     (mock_db (mock_customer\<lparr>customer_cart := Some []\<rparr>)
        [mock_cart_coupon\<lparr>user_tiers := Val [''Gold'', ''Platinum'']\<rparr>])
     100 100 mock_customer_id ''CART20'' = Inl TierIneligible"
  by (simp add: eval_defs mock_defs)

text \<open>
  C8 (as amended). For every coupon set and tier, when the customer's cart is empty (or the
  customer has no cart) \<^verbatim>\<open>get_applicable_coupons\<close> returns the empty list without
  error, and \<^verbatim>\<open>apply_coupon\<close> never succeeds. It fails with the rejection of the
  first check that fails, in the order of the source: the coupon is not found; it is not
  active or has not started; it has expired; the customer's tier is not among the coupon's
  tiers; and with \<open>EmptyCart\<close> when the coupon passes all of these.
\<close>

theorem empty_cart_not_applicable:
  assumes "map_of (customers st) customer_id = Some cu"
    and "customer_cart cu = None \<or> customer_cart cu = Some []"
  shows "get_applicable_coupons st now customer_id = Inr []
       \<and> (\<forall>r. apply_coupon st now applied customer_id cid \<noteq> Inr r)
       \<and> (find (\<lambda>cp. coupon_id cp = cid) (coupons st) = None \<longrightarrow>
            apply_coupon st now applied customer_id cid = Inl CouponNotFound)
       \<and> (\<forall>cp. find (\<lambda>cp. coupon_id cp = cid) (coupons st) = Some cp \<longrightarrow>
            (\<not> is_active cp \<or> now < valid_from cp \<longrightarrow>
               apply_coupon st now applied customer_id cid = Inl NotActiveOrNotYetValid)
          \<and> (is_active cp \<and> valid_from cp \<le> now \<and> (\<exists>u. valid_until cp = Some u \<and> u < now) \<longrightarrow>
               apply_coupon st now applied customer_id cid = Inl Expired)
          \<and> (\<forall>ts. is_active cp \<and> valid_from cp \<le> now
                    \<and> (\<forall>u. valid_until cp = Some u \<longrightarrow> now \<le> u)
                    \<and> user_tiers_or_default cp = Inr ts \<longrightarrow>
                 (customer_tier_of cu \<notin> set ts \<longrightarrow>
                    apply_coupon st now applied customer_id cid = Inl TierIneligible)
               \<and> (customer_tier_of cu \<in> set ts \<longrightarrow>
                    apply_coupon st now applied customer_id cid = Inl EmptyCart)))"
proof (intro conjI allI impI; (elim conjE exE)?)
  show "get_applicable_coupons st now customer_id = Inr []"
    using assms by (auto simp: get_applicable_coupons_def)
next
  fix r
  show "apply_coupon st now applied customer_id cid \<noteq> Inr r"
    by (rule empty_cart_never_succeeds[OF assms])
next
  assume "find (\<lambda>cp. coupon_id cp = cid) (coupons st) = None"
  then show "apply_coupon st now applied customer_id cid = Inl CouponNotFound"
    by (rule apply_coupon_coupon_not_found[OF assms(1)])
next
  fix cp
  assume "find (\<lambda>cp. coupon_id cp = cid) (coupons st) = Some cp"
    and "\<not> is_active cp \<or> now < valid_from cp"
  then show "apply_coupon st now applied customer_id cid = Inl NotActiveOrNotYetValid"
    by (rule apply_coupon_checks(1)[OF assms(1)])
next
  fix cp u
  assume "find (\<lambda>cp. coupon_id cp = cid) (coupons st) = Some cp"
    and "is_active cp" "valid_from cp \<le> now" "valid_until cp = Some u" "u < now"
  then show "apply_coupon st now applied customer_id cid = Inl Expired"
    by (rule apply_coupon_checks(2)[OF assms(1)])
next
  fix cp ts
  assume "find (\<lambda>cp. coupon_id cp = cid) (coupons st) = Some cp"
    and "is_active cp" "valid_from cp \<le> now" "\<forall>u. valid_until cp = Some u \<longrightarrow> now \<le> u"
    "user_tiers_or_default cp = Inr ts" "customer_tier_of cu \<notin> set ts"
  then show "apply_coupon st now applied customer_id cid = Inl TierIneligible"
    by (rule apply_coupon_checks(4)[OF assms(1)])
next
  fix cp ts
  assume "find (\<lambda>cp. coupon_id cp = cid) (coupons st) = Some cp"
    and "is_active cp" "valid_from cp \<le> now" "\<forall>u. valid_until cp = Some u \<longrightarrow> now \<le> u"
    "user_tiers_or_default cp = Inr ts" "customer_tier_of cu \<in> set ts"
  then show "apply_coupon st now applied customer_id cid = Inl EmptyCart"
    using assms(2) by (intro apply_coupon_checks(5)[OF assms(1)])
qed

theorem empty_cart_not_applicable_witness:
  "get_applicable_coupons
     (mock_db (mock_customer\<lparr>customer_cart := Some []\<rparr>)
        [mock_cart_coupon, mock_product_coupon, mock_bxgy_coupon]) 100 mock_customer_id = Inr []
   \<and> apply_coupon
       (mock_db (mock_customer\<lparr>customer_cart := Some []\<rparr>)
          [mock_cart_coupon, mock_product_coupon, mock_bxgy_coupon])
       100 100 mock_customer_id ''CART20'' = Inl EmptyCart
   \<and> apply_coupon
       (mock_db (mock_customer\<lparr>customer_cart := Some []\<rparr>)
          [mock_cart_coupon, mock_product_coupon, mock_bxgy_coupon])
       125 125 mock_customer_id ''CART20'' = Inl Expired"
proof -
  define cu where "cu = mock_customer\<lparr>customer_cart := Some []\<rparr>"
  define st where "st = mock_db cu [mock_cart_coupon, mock_product_coupon, mock_bxgy_coupon]"
  have h1: "map_of (customers st) mock_customer_id = Some cu" by (simp add: st_def mock_db_def)
  have h2: "customer_cart cu = None \<or> customer_cart cu = Some []" by (simp add: cu_def)
  have f: "find (\<lambda>cp. coupon_id cp = ''CART20'') (coupons st) = Some mock_cart_coupon"
    by (simp add: st_def mock_defs)
  have valid: "is_active mock_cart_coupon \<and> valid_from mock_cart_coupon \<le> 100
                \<and> (\<forall>u. valid_until mock_cart_coupon = Some u \<longrightarrow> 100 \<le> u)
                \<and> user_tiers_or_default mock_cart_coupon = Inr all_tiers"
    by (simp add: user_tiers_or_default_def mock_cart_coupon_def)
  have expired: "is_active mock_cart_coupon \<and> valid_from mock_cart_coupon \<le> 125
                \<and> (\<exists>u. valid_until mock_cart_coupon = Some u \<and> u < 125)"
    by (simp add: mock_cart_coupon_def)
  have t: "customer_tier_of cu \<in> set all_tiers"
    by (simp add: customer_tier_of_def cu_def mock_defs)
  note T = empty_cart_not_applicable[OF h1 h2, of 100 100 "''CART20''"]
    and T' = empty_cart_not_applicable[OF h1 h2, of 125 125 "''CART20''"]
  have l: "get_applicable_coupons st 100 mock_customer_id = Inr []"
    by (rule T[THEN conjunct1])
  have e: "apply_coupon st 100 100 mock_customer_id ''CART20'' = Inl EmptyCart"
    by (rule T[THEN conjunct2, THEN conjunct2, THEN conjunct2, rule_format, OF f,
          THEN conjunct2, THEN conjunct2, rule_format, OF valid, THEN conjunct2, rule_format, OF t])
  have x: "apply_coupon st 125 125 mock_customer_id ''CART20'' = Inl Expired"
    by (rule T'[THEN conjunct2, THEN conjunct2, THEN conjunct2, rule_format, OF f,
          THEN conjunct2, THEN conjunct1, rule_format, OF expired])
  from l e x show ?thesis
    unfolding st_def cu_def by (intro conjI)
qed

section \<open>The list of applicable coupons\<close>

lemma sort_by_discount_descending:
  "sorted_wrt (\<lambda>x y. snd y \<le> snd x) (sort_by_discount xs)"
proof -
  have "sorted (map (\<lambda>x. - snd x) (sort_by_discount xs))"
    unfolding sort_by_discount_def by (rule sorted_sort_key)
  then show ?thesis by (simp add: sorted_map)
qed

lemma sort_by_discount_stable:
  "filter (\<lambda>x. snd x = k) (sort_by_discount xs) = filter (\<lambda>x. snd x = k) xs"
  using sort_key_stable[of "\<lambda>x. - snd x" "- k" xs] by (simp add: sort_by_discount_def)

lemma set_sort_by_discount: "set (sort_by_discount xs) = set xs"
  by (simp add: sort_by_discount_def)

lemma collect_applicable_entries:
  assumes "collect_applicable c cps acc = Inr res"
  shows "res = acc @ concat (map (\<lambda>cp. case list_entry c cp of
                                        Inr (Some x) \<Rightarrow> [(cp, x)] | _ \<Rightarrow> []) cps)"
  using assms
proof (induction cps arbitrary: acc)
  case Nil
  then show ?case by simp
next
  case (Cons cp cps)
  show ?case
  proof (cases "list_entry c cp")
    case (Inl err)
    with Cons.prems show ?thesis by simp
  next
    case (Inr r)
    show ?thesis
    proof (cases r)
      case None
      with Inr Cons.prems have "collect_applicable c cps acc = Inr res" by simp
      from Cons.IH[OF this] show ?thesis by (simp add: Inr None)
    next
      case (Some x)
      with Inr Cons.prems have "collect_applicable c cps (acc @ [(cp, x)]) = Inr res" by simp
      from Cons.IH[OF this] show ?thesis by (simp add: Inr Some)
    qed
  qed
qed

lemma collect_applicable_total:
  assumes "\<forall>cp\<in>set cps. \<exists>r. list_entry c cp = Inr r"
  shows "\<exists>res. collect_applicable c cps acc = Inr res"
  using assms
  by (induction cps arbitrary: acc) (auto split: sum.splits option.splits)

lemma get_applicable_coupons_listing:
  assumes "map_of (customers st) customer_id = Some cu" and "customer_cart cu = Some c"
    and "c \<noteq> []" and "get_applicable_coupons st now customer_id = Inr res"
  shows "res = sort_by_discount
                 (concat (map (\<lambda>cp. case list_entry c cp of
                                       Inr (Some x) \<Rightarrow> [(cp, x)] | _ \<Rightarrow> [])
                            (find_valid_coupons (coupons st) now (customer_tier_of cu))))"
proof -
  from assms obtain acc where
    acc: "collect_applicable c (find_valid_coupons (coupons st) now (customer_tier_of cu)) [] = Inr acc"
    and res: "res = sort_by_discount acc"
    by (auto simp: get_applicable_coupons_def split: sum.splits)
  from collect_applicable_entries[OF acc] res show ?thesis by simp
qed

lemma list_entry_positive:
  assumes "list_entry c cp = Inr (Some x)" and "\<forall>d. ctype cp \<noteq> CartWise d"
  shows "0 < x"
  using assms by (cases "ctype cp") (auto simp: list_entry_def split: sum.splits if_splits)

text \<open>
  A cart-wise coupon whose \<^verbatim>\<open>max_discount\<close> is stored as \<^verbatim>\<open>None\<close> makes both
  functions raise once the threshold is met.
\<close>

lemma cart_wise_null_max_discount_raises:
  assumes "ctype cp = CartWise d" and "max_discount d = Null" and "threshold d \<le> cart_total c"
  shows "list_entry c cp = Inl TypeError" and "recalculate_discount c cp = Inl TypeError"
  using assms by (simp_all add: list_entry_def recalculate_discount_def cart_wise_min_def)

text \<open>
  C6. The list should hold exactly the coupons with a positive discount. The cart-wise branch
  of the listing appends a coupon as soon as the threshold is met, without the test
  \<^verbatim>\<open>> 0\<close> that the product-wise and bxgy branches (and \<^verbatim>\<open>apply_coupon\<close>) make: on
  a cart of one free sample the coupon with threshold 0 is listed with a discount of 0.
\<close>

theorem listing_holds_zero_discount:
  "get_applicable_coupons
     (mock_db (mock_customer\<lparr>customer_cart := Some free_cart\<rparr>) [any10_coupon])
     100 mock_customer_id = Inr [(any10_coupon, 0)]"
  by (simp add: eval_defs mock_defs)

end
